theory Spec2Isabelle
  imports Complex_Main "HOL-Library.Stream" "HOL-Library.Multiset"
begin

section \<open>The export script\<close>

text \<open>
  The script builds synthetic training data, trains a classifier, and writes three files:
  the ONNX model, the feature metadata and the calibration parameters. Its own code is
  embedded function by function. Calls into numpy, scikit-learn, xgboost and onnxmltools
  are calls into an environment: what a library computes from opaque objects (a trained
  booster, a converted graph, fitted calibrators) and whether it raises is a field of the
  record \<open>env\<close>, so every statement below holds for every behaviour of the libraries.
  The state is the file system. The text on the console is not part of it, but every
  \<open>print\<close> is a step that can raise. Floating-point numbers are real numbers, with
  the three non-finite floats beside them where the script passes a float through
  unchanged; the cast to 32-bit floats is the rounding function \<open>astype_float32\<close>.
\<close>

subsection \<open>Values, errors, files\<close>

text \<open>
  Python values that reach \<open>json.dump\<close>: a dict keeps its insertion order. A float is
  a real number or one of the non-finite floats, which \<open>json.dump\<close> writes as
  \<open>NaN\<close>, \<open>Infinity\<close> and \<open>-Infinity\<close>.
\<close>

datatype pyval =
    PInt int
  | PFloat real
  | PNaN
  | PInfinity
  | PNegInfinity
  | PStr string
  | PList "pyval list"
  | PDict "(string \<times> pyval) list"

datatype py_float = Finite real | NaN | Infinity | NegInfinity

fun float_val :: "py_float \<Rightarrow> pyval" where
  "float_val (Finite r) = PFloat r"
| "float_val NaN = PNaN"
| "float_val Infinity = PInfinity"
| "float_val NegInfinity = PNegInfinity"

text \<open>
  Exceptions. The script raises none itself; \<open>IndexError\<close> comes from the subscript
  \<open>calibrated_classifiers_[0]\<close>, \<open>AttributeError\<close> from reading an attribute the
  object does not have, \<open>OSError\<close> from opening or writing an output file,
  \<open>UnicodeEncodeError\<close> from printing a character the console cannot encode, and
  \<open>LibraryError\<close> carries the class name of whatever a library call raised.
\<close>

datatype py_error =
    IndexError
  | AttributeError string
  | OSError string
  | UnicodeEncodeError
  | LibraryError string

datatype tensor_type = FloatTensorType "nat option list"

text \<open>The saved model: the inputs it declares and the converted graph, which is opaque.\<close>

record 'g onnx_model =
  graph_inputs :: "(string \<times> tensor_type) list"
  graph :: 'g

text \<open>
  A file holds a saved model or a JSON document, or it is \<open>Partial\<close>: opened for
  writing, so that its old content is gone, and not written to the end.
\<close>

datatype 'g file_content = OnnxFile "'g onnx_model" | JsonFile pyval | Partial

text \<open>What happens when a path is opened for writing and content is written to it.\<close>

datatype write_outcome = OpenFails | WriteFails | Written

type_synonym 'g fs = "string \<rightharpoonup> 'g file_content"

subsection \<open>The trained model and the libraries\<close>

record xgb_params =
  n_estimators :: nat
  max_depth :: nat
  learning_rate :: real
  random_state :: nat
  use_label_encoder :: bool
  eval_metric :: string

text \<open>
  A fitted \<open>XGBClassifier\<close>: its hyperparameters, the number of columns of the matrix it
  was fitted on (\<open>n_features_in_\<close>) and the booster, which is opaque.
\<close>

record 'b xgb_model =
  hyper :: xgb_params
  n_features_in :: nat
  booster :: 'b

text \<open>
  An element of \<open>calibrated_classifiers_\<close>: the attributes \<open>a_\<close> and \<open>b_\<close> the
  script reads from it, \<open>None\<close> when the object has no such attribute.
\<close>

record calibrator =
  cal_a :: "py_float option"
  cal_b :: "py_float option"

type_synonym rng = "nat stream"

text \<open>
  The environment of one run.
  \<^item> \<open>mt19937 seed\<close>: the raw output of the generator seeded with \<open>seed\<close>
    (\<open>np.random.seed(42)\<close> and \<open>random_state=42\<close> start from the same state);
  \<^item> \<open>xgb_train\<close>: \<open>XGBClassifier(...).fit(X, y)\<close>;
  \<^item> \<open>xgb_score\<close>: \<open>model.score(X, y)\<close>;
  \<^item> \<open>onnx_graph\<close>: the graph \<open>onnxmltools.convert_xgboost\<close> builds from the model,
    the declared inputs and the opset;
  \<^item> \<open>calibrated_fit\<close>: \<open>CalibratedClassifierCV(model, method, cv).fit(X, y)\<close>, giving
    the list \<open>calibrated_classifiers_\<close>;
  \<^item> \<open>disk path\<close>: whether \<open>path\<close> can be opened for writing and written
    completely;
  \<^item> \<open>stdout_unicode\<close>: whether the encoding of the console has the characters
    beyond ASCII (UTF-8 has them, ASCII and cp1252 lack the check mark the script prints).
\<close>

record ('b, 'g) env =
  mt19937 :: "nat \<Rightarrow> rng"
  xgb_train :: "xgb_params \<Rightarrow> real list list \<Rightarrow> int list \<Rightarrow> py_error + 'b"
  xgb_score :: "'b xgb_model \<Rightarrow> real list list \<Rightarrow> int list \<Rightarrow> py_error + real"
  onnx_graph :: "'b xgb_model \<Rightarrow> (string \<times> tensor_type) list \<Rightarrow> nat \<Rightarrow> py_error + 'g"
  calibrated_fit ::
    "'b xgb_model \<Rightarrow> string \<Rightarrow> string \<Rightarrow> real list list \<Rightarrow> int list \<Rightarrow> py_error + calibrator list"
  disk :: "string \<Rightarrow> write_outcome"
  stdout_unicode :: bool

subsection \<open>Printing\<close>

text \<open>
  A printed line is a list of segments, as an f-string has them: literal text, an integer,
  or a float formatted with \<open>:.4f\<close>. Formatted numbers consist of ASCII characters.
  A string is a list of bytes (UTF-8), so a character beyond ASCII has a byte with the top
  bit set. \<open>print\<close> raises UnicodeEncodeError when the line has such a character and
  the console's encoding lacks it; otherwise it returns.
\<close>

datatype segment = Lit string | Num nat | Fmt4f py_float

fun segment_ascii :: "segment \<Rightarrow> bool" where
  "segment_ascii (Lit text) = list_all (\<lambda>c. \<not> digit7 c) text"
| "segment_ascii (Num n) = True"
| "segment_ascii (Fmt4f x) = True"

definition py_print :: "('b, 'g) env \<Rightarrow> segment list \<Rightarrow> py_error + unit" where
  "py_print env line =
     (if stdout_unicode env \<or> list_all segment_ascii line then Inr ()
      else Inl UnicodeEncodeError)"

text \<open>Consecutive prints: the first that raises ends them.\<close>

fun print_all :: "('b, 'g) env \<Rightarrow> segment list list \<Rightarrow> py_error + unit" where
  "print_all env [] = Inr ()"
| "print_all env (line # rest) =
     (case py_print env line of Inl e \<Rightarrow> Inl e | Inr _ \<Rightarrow> print_all env rest)"

text \<open>The check mark U+2713 that the three export functions print, in UTF-8.\<close>

definition check_mark :: string where
  "check_mark = [CHR 0xE2, CHR 0x9C, CHR 0x93]"

subsection \<open>numpy: random draws, stacking columns, the cast to 32-bit floats\<close>

text \<open>
  The draws are functions of the generator's raw output and return the advanced generator.
  \<open>np.random.random\<close> gives floats in \<open>[0, 1)\<close> with 53 random bits,
  \<open>np.random.uniform(low, high)\<close> is \<open>low + (high - low) * random()\<close>, and
  \<open>np.random.randint(low, high)\<close> gives integers from \<open>low\<close> (inclusive) to \<open>high\<close>
  (exclusive); the script calls it with \<open>low < high\<close> only.
\<close>

definition np_random_random :: "nat \<Rightarrow> rng \<Rightarrow> real list \<times> rng" where
  "np_random_random n g =
     (map (\<lambda>r. real (r mod 2 ^ 53) / 2 ^ 53) (stake n g), sdrop n g)"

definition np_random_uniform :: "real \<Rightarrow> real \<Rightarrow> nat \<Rightarrow> rng \<Rightarrow> real list \<times> rng" where
  "np_random_uniform low high n g =
     (let (us, g') = np_random_random n g
      in (map (\<lambda>u. low + (high - low) * u) us, g'))"

definition np_random_randint :: "int \<Rightarrow> int \<Rightarrow> nat \<Rightarrow> rng \<Rightarrow> int list \<times> rng" where
  "np_random_randint low high n g =
     (map (\<lambda>r. low + int r mod (high - low)) (stake n g), sdrop n g)"

text \<open>\<open>np.column_stack\<close> of one-dimensional arrays of one length: row \<open>i\<close> collects entry \<open>i\<close> of each.\<close>

definition np_column_stack :: "real list list \<Rightarrow> real list list" where
  "np_column_stack cols =
     (case cols of [] \<Rightarrow> []
      | c # _ \<Rightarrow> map (\<lambda>i. map (\<lambda>col. col ! i) cols) [0..<length c])"

text \<open>
  \<open>astype(np.float32)\<close>: rounding to the nearest binary32 number, ties to even. A normal
  binary32 number is an integer multiple of \<open>2 ^ (e - 23)\<close> where \<open>2 ^ e\<close> bounds its
  magnitude from below; below \<open>2 ^ -126\<close> the spacing stays \<open>2 ^ -149\<close>. Magnitudes
  beyond the binary32 range do not occur in the script (every entry is below 50000).
\<close>

definition round_half_even :: "real \<Rightarrow> int" where
  "round_half_even r =
     (let f = \<lfloor>r\<rfloor>; d = r - of_int f
      in if d < 1 / 2 then f else if 1 / 2 < d then f + 1 else if even f then f else f + 1)"

definition astype_float32 :: "real \<Rightarrow> real" where
  "astype_float32 x =
     (if x = 0 then 0
      else let e = max (- 126) \<lfloor>log 2 \<bar>x\<bar>\<rfloor>;
               ulp = 2 powr (of_int e - 23)
           in of_int (round_half_even (x / ulp)) * ulp)"

subsection \<open>The sample data\<close>

definition n_samples :: nat where
  "n_samples = 1000"

definition create_sample_data :: "('b, 'g) env \<Rightarrow> real list list \<times> int list" where
  "create_sample_data env =
     (let g0 = mt19937 env 42;
          (claim_amounts, g1) = np_random_uniform 1000 50000 n_samples g0;
          (patient_ages, g2) = np_random_randint 18 90 n_samples g1;
          (procedure_categories, g3) = np_random_randint 0 4 n_samples g2;
          (provider_states, g4) = np_random_randint 0 4 n_samples g3;
          (prior_denials, g5) = np_random_randint 0 5 n_samples g4;
          X = np_column_stack
                [claim_amounts,
                 map of_int patient_ages,
                 map of_int procedure_categories,
                 map of_int provider_states,
                 map of_int prior_denials];
          denial_prob =
            map2 (\<lambda>c d. (if 20000 < c then 1 else 0) * 0.5 + (if 2 < d then 1 else 0) * 0.3)
              claim_amounts prior_denials;
          (u, g6) = np_random_random n_samples g5;
          y = map2 (\<lambda>r p. if r < (p :: real) then (1 :: int) else 0) u denial_prob
      in (map (map astype_float32) X, y))"

subsection \<open>The train and test split of scikit-learn\<close>

text \<open>
  \<open>RandomState.permutation(n)\<close> shuffles \<open>range(n)\<close>: for \<open>i\<close> from \<open>n - 1\<close> down to 1
  it swaps entry \<open>i\<close> with entry \<open>j\<close>, \<open>j\<close> drawn from \<open>0..i\<close>.
\<close>

fun shuffle_from :: "nat \<Rightarrow> 'a list \<Rightarrow> rng \<Rightarrow> 'a list" where
  "shuffle_from 0 xs g = xs"
| "shuffle_from (Suc i) xs g =
     (let j = shd g mod (Suc (Suc i))
      in shuffle_from i (xs[Suc i := xs ! j, j := xs ! Suc i]) (stl g))"

definition permutation :: "nat \<Rightarrow> rng \<Rightarrow> nat list" where
  "permutation n g = shuffle_from (n - 1) [0..<n] g"

text \<open>
  \<open>train_test_split(X, y, test_size, random_state)\<close> with a fractional \<open>test_size\<close>:
  \<open>n_test = ceil(test_size * n)\<close>, \<open>n_train = n - n_test\<close>; the first \<open>n_test\<close>
  indices of the permutation are the test part, the next \<open>n_train\<close> the train part. It
  raises ValueError when the arrays differ in length or the train part would be empty.
  The result is in the order \<open>X_train, X_test, y_train, y_test\<close>.
\<close>

definition train_test_split ::
  "('b, 'g) env \<Rightarrow> 'x list \<Rightarrow> 'y list \<Rightarrow> real \<Rightarrow> nat \<Rightarrow>
     py_error + ('x list \<times> 'x list \<times> 'y list \<times> 'y list)" where
  "train_test_split env X y test_size seed =
     (let n = length X;
          n_test = nat \<lceil>test_size * real n\<rceil>;
          n_train = n - n_test
      in if length y \<noteq> n \<or> n_train = 0 then Inl (LibraryError ''ValueError'')
         else let p = permutation n (mt19937 env seed);
                  ind_test = take n_test p;
                  ind_train = take n_train (drop n_test p)
              in Inr (map ((!) X) ind_train, map ((!) X) ind_test,
                      map ((!) y) ind_train, map ((!) y) ind_test))"

subsection \<open>Training\<close>

definition ncols :: "real list list \<Rightarrow> nat" where
  "ncols X = (case X of [] \<Rightarrow> 0 | row # _ \<Rightarrow> length row)"

definition XGBClassifier_fit ::
  "('b, 'g) env \<Rightarrow> xgb_params \<Rightarrow> real list list \<Rightarrow> int list \<Rightarrow> py_error + 'b xgb_model" where
  "XGBClassifier_fit env params X y =
     (case xgb_train env params X y of
        Inl e \<Rightarrow> Inl e
      | Inr b \<Rightarrow> Inr \<lparr>hyper = params, n_features_in = ncols X, booster = b\<rparr>)"

definition train_model ::
  "('b, 'g) env \<Rightarrow> real list list \<Rightarrow> int list \<Rightarrow> py_error + 'b xgb_model" where
  "train_model env X_train y_train =
     XGBClassifier_fit env
       \<lparr>n_estimators = 10, max_depth = 3, learning_rate = 0.1, random_state = 42,
        use_label_encoder = False, eval_metric = ''logloss''\<rparr>
       X_train y_train"

subsection \<open>The ONNX export\<close>

text \<open>
  \<open>onnxmltools.convert_xgboost\<close> builds the graph for the target opset and declares
  its inputs as \<open>initial_types\<close> gives them.
\<close>

definition convert_xgboost ::
  "('b, 'g) env \<Rightarrow> 'b xgb_model \<Rightarrow> (string \<times> tensor_type) list \<Rightarrow> nat \<Rightarrow> py_error + 'g onnx_model" where
  "convert_xgboost env model initial_types target_opset =
     (case onnx_graph env model initial_types target_opset of
        Inl e \<Rightarrow> Inl e
      | Inr g \<Rightarrow> Inr \<lparr>graph_inputs = initial_types, graph = g\<rparr>)"

text \<open>
  \<open>save_model(onnx_model, path)\<close> and
  \<open>with open(path, 'w') as f: json.dump(value, f, indent=2)\<close> open the path for writing
  and write the content. When the path cannot be opened nothing changes; when the write
  breaks off the file stays behind incomplete. A complete file holds the value written;
  its text layout is not modelled.
\<close>

definition write_file ::
  "('b, 'g) env \<Rightarrow> string \<Rightarrow> 'g file_content \<Rightarrow> 'g fs \<Rightarrow> (py_error + unit) \<times> 'g fs" where
  "write_file env path content fs =
     (case disk env path of
        OpenFails \<Rightarrow> (Inl (OSError path), fs)
      | WriteFails \<Rightarrow> (Inl (OSError path), fs(path \<mapsto> Partial))
      | Written \<Rightarrow> (Inr (), fs(path \<mapsto> content)))"

definition export_to_onnx ::
  "('b, 'g) env \<Rightarrow> 'b xgb_model \<Rightarrow> string \<Rightarrow> 'g fs \<Rightarrow> (py_error + string) \<times> 'g fs" where
  "export_to_onnx env model output_path fs =
     (let initial_type = [(''float_input'', FloatTensorType [None, Some 5])]
      in case convert_xgboost env model initial_type 12 of
           Inl e \<Rightarrow> (Inl e, fs)
         | Inr onnx_model \<Rightarrow>
             (case write_file env output_path (OnnxFile onnx_model) fs of
                (Inl e, fs1) \<Rightarrow> (Inl e, fs1)
              | (Inr _, fs1) \<Rightarrow>
                  (case py_print env [Lit (check_mark @ '' ONNX model saved to: '' @ output_path)] of
                     Inl e \<Rightarrow> (Inl e, fs1)
                   | Inr _ \<Rightarrow> (Inr output_path, fs1))))"

subsection \<open>The feature metadata\<close>

definition metadata :: pyval where
  "metadata =
     PDict [(''features'', PList [
       PDict [(''name'', PStr ''claim_amount''), (''type'', PStr ''NUMERIC''), (''index'', PInt 0)],
       PDict [(''name'', PStr ''patient_age''), (''type'', PStr ''NUMERIC''), (''index'', PInt 1)],
       PDict [(''name'', PStr ''procedure_category''), (''type'', PStr ''CATEGORICAL''),
              (''index'', PInt 2),
              (''mapping'', PDict [
                 (''SURGERY'', PFloat 0),
                 (''DIAGNOSTIC'', PFloat 1),
                 (''THERAPY'', PFloat 2),
                 (''EMERGENCY'', PFloat 3),
                 (''UNKNOWN'', PFloat 4)])],
       PDict [(''name'', PStr ''provider_state''), (''type'', PStr ''CATEGORICAL''),
              (''index'', PInt 3),
              (''mapping'', PDict [
                 (''CA'', PFloat 0),
                 (''NY'', PFloat 1),
                 (''TX'', PFloat 2),
                 (''FL'', PFloat 3),
                 (''UNKNOWN'', PFloat 4)])],
       PDict [(''name'', PStr ''prior_denials''), (''type'', PStr ''NUMERIC''), (''index'', PInt 4)]])]"

definition export_feature_metadata ::
  "('b, 'g) env \<Rightarrow> string \<Rightarrow> 'g fs \<Rightarrow> (py_error + string) \<times> 'g fs" where
  "export_feature_metadata env output_path fs =
     (case write_file env output_path (JsonFile metadata) fs of
        (Inl e, fs1) \<Rightarrow> (Inl e, fs1)
      | (Inr _, fs1) \<Rightarrow>
          (case py_print env [Lit (check_mark @ '' Feature metadata saved to: '' @ output_path)] of
             Inl e \<Rightarrow> (Inl e, fs1)
           | Inr _ \<Rightarrow> (Inr output_path, fs1)))"

subsection \<open>Calibration\<close>

text \<open>
  The dict is built, reading \<open>a_\<close> and then \<open>b_\<close>, before the file is opened;
  \<open>float()\<close> leaves a float as it is. The two prints follow the write.
\<close>

definition calibration_params :: "py_float \<Rightarrow> py_float \<Rightarrow> pyval" where
  "calibration_params a b =
     PDict [(''type'', PStr ''PLATT_SCALING''),
            (''parameters'', PDict [(''a'', float_val a), (''b'', float_val b)])]"

definition calibrate_and_export ::
  "('b, 'g) env \<Rightarrow> 'b xgb_model \<Rightarrow> real list list \<Rightarrow> int list \<Rightarrow> string \<Rightarrow> 'g fs \<Rightarrow>
     (py_error + string) \<times> 'g fs" where
  "calibrate_and_export env model X_val y_val output_path fs =
     (case calibrated_fit env model ''sigmoid'' ''prefit'' X_val y_val of
        Inl e \<Rightarrow> (Inl e, fs)
      | Inr calibrated_classifiers \<Rightarrow>
          (case calibrated_classifiers of
             [] \<Rightarrow> (Inl IndexError, fs)
           | calibrator # _ \<Rightarrow>
               (case cal_a calibrator of
                  None \<Rightarrow> (Inl (AttributeError ''a_''), fs)
                | Some a \<Rightarrow>
                    (case cal_b calibrator of
                       None \<Rightarrow> (Inl (AttributeError ''b_''), fs)
                     | Some b \<Rightarrow>
                         (case write_file env output_path (JsonFile (calibration_params a b)) fs of
                            (Inl e, fs1) \<Rightarrow> (Inl e, fs1)
                          | (Inr _, fs1) \<Rightarrow>
                              (case print_all env
                                 [[Lit (check_mark @ '' Calibration parameters saved to: ''
                                        @ output_path)],
                                  [Lit ''  Platt scaling: a='', Fmt4f a, Lit '', b='', Fmt4f b]] of
                                 Inl e \<Rightarrow> (Inl e, fs1)
                               | Inr _ \<Rightarrow> (Inr output_path, fs1)))))))"

subsection \<open>The pipeline\<close>

text \<open>Stage 1 of \<open>main\<close>: the data and its two splits (70 / 15 / 15).\<close>

record splits =
  train_X :: "real list list"
  train_y :: "int list"
  val_X :: "real list list"
  val_y :: "int list"
  test_X :: "real list list"
  test_y :: "int list"

definition split_data :: "('b, 'g) env \<Rightarrow> py_error + splits" where
  "split_data env =
     (let (X, y) = create_sample_data env
      in case train_test_split env X y 0.3 42 of
           Inl e \<Rightarrow> Inl e
         | Inr (X_train, X_temp, y_train, y_temp) \<Rightarrow>
             (case train_test_split env X_temp y_temp 0.5 42 of
                Inl e \<Rightarrow> Inl e
              | Inr (X_val, X_test, y_val, y_test) \<Rightarrow>
                  Inr \<lparr>train_X = X_train, train_y = y_train, val_X = X_val, val_y = y_val,
                       test_X = X_test, test_y = y_test\<rparr>))"

text \<open>The lines \<open>main\<close> prints, in the groups in which it prints them.\<close>

definition lines_start :: "segment list list" where
  "lines_start =
     [[Lit (replicate 60 CHR ''='')],
      [Lit ''XGBoost to ONNX Export Pipeline''],
      [Lit (replicate 60 CHR ''='')],
      [Lit (CHR 0x0A # ''1. Creating sample data...'')]]"

definition lines_split :: "splits \<Rightarrow> segment list list" where
  "lines_split d =
     [[Lit ''   Train: '', Num (length (train_X d)), Lit '' samples''],
      [Lit ''   Val:   '', Num (length (val_X d)), Lit '' samples''],
      [Lit ''   Test:  '', Num (length (test_X d)), Lit '' samples''],
      [Lit (CHR 0x0A # ''2. Training XGBoost model...'')]]"

definition lines_trained :: "real \<Rightarrow> real \<Rightarrow> segment list list" where
  "lines_trained train_acc test_acc =
     [[Lit ''   Train accuracy: '', Fmt4f (Finite train_acc)],
      [Lit ''   Test accuracy:  '', Fmt4f (Finite test_acc)],
      [Lit (CHR 0x0A # ''3. Exporting to ONNX...'')]]"

definition lines_complete :: "segment list list" where
  "lines_complete =
     [[Lit (CHR 0x0A # replicate 60 CHR ''='')],
      [Lit ''Export complete!''],
      [Lit (replicate 60 CHR ''='')],
      [Lit (CHR 0x0A # ''Generated files:'')],
      [Lit ''  1. claim_denial_model.onnx       - ONNX model file''],
      [Lit ''  2. feature_metadata.json         - Feature definitions''],
      [Lit ''  3. calibration_params.json       - Calibration parameters''],
      [Lit (CHR 0x0A # ''Next steps:'')],
      [Lit ''  1. Copy these files to:''],
      [Lit ''     candid-inference-impl/src/main/resources/models/''],
      [Lit ''  2. Run Java inference:''],
      [Lit ''     ./gradlew :candid-inference-impl:build''],
      [Lit ''  3. Test predictions:''],
      [Lit ''     See README.md for usage examples''],
      [Lit (replicate 60 CHR ''='')]]"

definition main :: "('b, 'g) env \<Rightarrow> 'g fs \<Rightarrow> (py_error + unit) \<times> 'g fs" where
  "main env fs =
     (case print_all env lines_start of
        Inl e \<Rightarrow> (Inl e, fs)
      | Inr _ \<Rightarrow>
     (case split_data env of
        Inl e \<Rightarrow> (Inl e, fs)
      | Inr d \<Rightarrow>
     (case print_all env (lines_split d) of
        Inl e \<Rightarrow> (Inl e, fs)
      | Inr _ \<Rightarrow>
     (case train_model env (train_X d) (train_y d) of
        Inl e \<Rightarrow> (Inl e, fs)
      | Inr model \<Rightarrow>
     (case xgb_score env model (train_X d) (train_y d) of
        Inl e \<Rightarrow> (Inl e, fs)
      | Inr train_acc \<Rightarrow>
     (case xgb_score env model (test_X d) (test_y d) of
        Inl e \<Rightarrow> (Inl e, fs)
      | Inr test_acc \<Rightarrow>
     (case print_all env (lines_trained train_acc test_acc) of
        Inl e \<Rightarrow> (Inl e, fs)
      | Inr _ \<Rightarrow>
     (case export_to_onnx env model ''claim_denial_model.onnx'' fs of
        (Inl e, fs1) \<Rightarrow> (Inl e, fs1)
      | (Inr _, fs1) \<Rightarrow>
     (case print_all env [[Lit (CHR 0x0A # ''4. Exporting feature metadata...'')]] of
        Inl e \<Rightarrow> (Inl e, fs1)
      | Inr _ \<Rightarrow>
     (case export_feature_metadata env ''feature_metadata.json'' fs1 of
        (Inl e, fs2) \<Rightarrow> (Inl e, fs2)
      | (Inr _, fs2) \<Rightarrow>
     (case print_all env
             [[Lit (CHR 0x0A # ''5. Calibrating model and exporting parameters...'')]] of
        Inl e \<Rightarrow> (Inl e, fs2)
      | Inr _ \<Rightarrow>
     (case calibrate_and_export env model (val_X d) (val_y d) ''calibration_params.json'' fs2 of
        (Inl e, fs3) \<Rightarrow> (Inl e, fs3)
      | (Inr _, fs3) \<Rightarrow>
     (case print_all env lines_complete of
        Inl e \<Rightarrow> (Inl e, fs3)
      | Inr _ \<Rightarrow> (Inr (), fs3))))))))))))))"

subsection \<open>Reading the written documents\<close>

text \<open>
  How a consumer reads the two JSON documents: a key of an object, the list under
  \<open>features\<close>, the fields of one feature, and a number (an integer counts as a number).
\<close>

fun dict_get :: "pyval \<Rightarrow> string \<Rightarrow> pyval option" where
  "dict_get (PDict kvs) k = map_of kvs k"
| "dict_get _ _ = None"

fun number :: "pyval \<Rightarrow> real option" where
  "number (PInt i) = Some (of_int i)"
| "number (PFloat r) = Some r"
| "number _ = None"

definition features_of :: "pyval \<Rightarrow> pyval list" where
  "features_of doc = (case dict_get doc ''features'' of Some (PList fs) \<Rightarrow> fs | _ \<Rightarrow> [])"

definition feature_index :: "pyval \<Rightarrow> int option" where
  "feature_index f = (case dict_get f ''index'' of Some (PInt i) \<Rightarrow> Some i | _ \<Rightarrow> None)"

definition feature_type :: "pyval \<Rightarrow> string option" where
  "feature_type f = (case dict_get f ''type'' of Some (PStr t) \<Rightarrow> Some t | _ \<Rightarrow> None)"

definition feature_mapping :: "pyval \<Rightarrow> (string \<times> pyval) list option" where
  "feature_mapping f = (case dict_get f ''mapping'' of Some (PDict m) \<Rightarrow> Some m | _ \<Rightarrow> None)"

text \<open>The UNKNOWN code of a feature, as a number.\<close>

definition unknown_code :: "pyval \<Rightarrow> real option" where
  "unknown_code f =
     (case feature_mapping f of
        None \<Rightarrow> None
      | Some m \<Rightarrow> (case map_of m ''UNKNOWN'' of None \<Rightarrow> None | Some v \<Rightarrow> number v))"

text \<open>The feature a column of the input vector belongs to, and that column's UNKNOWN code.\<close>

definition feature_at :: "pyval \<Rightarrow> int \<Rightarrow> pyval option" where
  "feature_at doc i = find (\<lambda>f. feature_index f = Some i) (features_of doc)"

definition column_unknown_code :: "pyval \<Rightarrow> int \<Rightarrow> real option" where
  "column_unknown_code doc i =
     (case feature_at doc i of None \<Rightarrow> None | Some f \<Rightarrow> unknown_code f)"

text \<open>The declared width of a model that declares one two-dimensional float input.\<close>

definition input_width :: "'g onnx_model \<Rightarrow> nat option" where
  "input_width m =
     (case graph_inputs m of
        [(name, FloatTensorType [batch, width])] \<Rightarrow> width
      | _ \<Rightarrow> None)"

subsection \<open>The calibrated probability\<close>

text \<open>
  Modelled from the spec: the inference runtime that applies the calibration parameters is
  not under src/. The spec (4.3) gives \<open>corrected = 1 / (1 + exp(a * raw_score + b))\<close>,
  the formula of the comment in \<open>calibrate_and_export\<close>.
\<close>

definition corrected :: "real \<Rightarrow> real \<Rightarrow> real \<Rightarrow> real" where
  "corrected a b raw_score = 1 / (1 + exp (a * raw_score + b))"

subsection \<open>Concrete environments\<close>

text \<open>
  \<open>env_ok\<close> is a run in a writable directory on a UTF-8 console in which training,
  scoring, conversion and the calibration fit return. The fit returns one calibrated
  classifier, as \<open>cv='prefit'\<close> gives; as in scikit-learn, that object is the wrapper
  of the estimator and its calibrators and has no attribute \<open>a_\<close> or \<open>b_\<close>
  (they belong to the sigmoid calibrator inside it). The generator's raw output is
  42, 43, 44, ...
\<close>

definition env_ok :: "(unit, unit) env" where
  "env_ok =
     \<lparr>mt19937 = (\<lambda>seed. siterate Suc seed),
      xgb_train = (\<lambda>params X y. Inr ()),
      xgb_score = (\<lambda>model X y. Inr 1),
      onnx_graph = (\<lambda>model initial_types target_opset. Inr ()),
      calibrated_fit = (\<lambda>model method cv X y. Inr [\<lparr>cal_a = None, cal_b = None\<rparr>]),
      disk = (\<lambda>path. Written),
      stdout_unicode = True\<rparr>"

text \<open>The model \<open>train_model\<close> returns in \<open>env_ok\<close> for a matrix of \<open>w\<close> columns.\<close>

definition fitted :: "nat \<Rightarrow> unit xgb_model" where
  "fitted w =
     \<lparr>hyper = \<lparr>n_estimators = 10, max_depth = 3, learning_rate = 0.1, random_state = 42,
               use_label_encoder = False, eval_metric = ''logloss''\<rparr>,
      n_features_in = w, booster = ()\<rparr>"

text \<open>The same run on a console whose encoding is ASCII.\<close>

definition env_ascii_console :: "(unit, unit) env" where
  "env_ascii_console = env_ok\<lparr>stdout_unicode := False\<rparr>"

text \<open>The run of \<open>env_ok\<close> with a metadata file that cannot be opened for writing.\<close>

definition env_metadata_readonly :: "(unit, unit) env" where
  "env_metadata_readonly =
     env_ok\<lparr>disk := (\<lambda>path. if path = ''feature_metadata.json'' then OpenFails else Written)\<rparr>"

text \<open>
  The library as the script takes it to be: the calibrated classifier carries \<open>a_\<close>
  and \<open>b_\<close>. This is not scikit-learn's object; it shows that the statements about a
  run in which every stage succeeds are not empty.
\<close>

definition env_exposing_ab :: "(unit, unit) env" where
  "env_exposing_ab =
     env_ok\<lparr>calibrated_fit :=
       (\<lambda>model method cv X y.
          Inr [\<lparr>cal_a = Some (Finite (- 2)), cal_b = Some (Finite (1 / 2))\<rparr>])\<rparr>"

section \<open>Properties of the data\<close>

subsection \<open>Random draws and the sample data\<close>

lemma length_np_random_random: "length (fst (np_random_random n g)) = n"
  by (simp add: np_random_random_def)

lemma length_np_random_uniform: "length (fst (np_random_uniform low high n g)) = n"
  by (simp add: np_random_uniform_def np_random_random_def)

lemma length_np_random_randint: "length (fst (np_random_randint low high n g)) = n"
  by (simp add: np_random_randint_def)

lemma np_random_randint_range:
  assumes "low < high" and "i < n"
  shows "low \<le> fst (np_random_randint low high n g) ! i \<and>
         fst (np_random_randint low high n g) ! i < high"
proof -
  have nth: "fst (np_random_randint low high n g) ! i = low + int (g !! i) mod (high - low)"
    using assms(2) by (simp add: np_random_randint_def)
  have "0 < high - low" using assms(1) by simp
  then have "0 \<le> int (g !! i) mod (high - low) \<and> int (g !! i) mod (high - low) < high - low"
    by simp
  then show ?thesis unfolding nth by linarith
qed

lemma nth_np_column_stack:
  "i < length c \<Longrightarrow> np_column_stack (c # cs) ! i = map (\<lambda>col. col ! i) (c # cs)"
  by (simp add: np_column_stack_def)

lemma length_np_column_stack: "length (np_column_stack (c # cs)) = length c"
  by (simp add: np_column_stack_def)

text \<open>\<open>create_sample_data\<close> with its columns named and the generator threaded by \<open>snd\<close>.\<close>

lemma create_sample_data_unfold:
  "create_sample_data env =
     (let g0 = mt19937 env 42;
          ca = np_random_uniform 1000 50000 n_samples g0;
          pa = np_random_randint 18 90 n_samples (snd ca);
          pc = np_random_randint 0 4 n_samples (snd pa);
          ps = np_random_randint 0 4 n_samples (snd pc);
          pd = np_random_randint 0 5 n_samples (snd ps);
          u = np_random_random n_samples (snd pd)
      in (map (map astype_float32)
            (np_column_stack [fst ca, map of_int (fst pa), map of_int (fst pc),
               map of_int (fst ps), map of_int (fst pd)]),
          map2 (\<lambda>r p. if r < p then 1 else 0) (fst u)
            (map2 (\<lambda>c d. (if 20000 < c then 1 else 0) * 0.5 + (if 2 < d then 1 else 0) * 0.3)
               (fst ca) (fst pd))))"
  by (simp add: create_sample_data_def Let_def split_beta)

lemma length_X: "length (fst (create_sample_data env)) = n_samples"
  by (simp add: create_sample_data_unfold Let_def length_np_column_stack length_np_random_uniform)

lemma length_y: "length (snd (create_sample_data env)) = n_samples"
  by (simp add: create_sample_data_unfold Let_def length_np_random_uniform
      length_np_random_randint length_np_random_random)

lemma round_half_even_of_int: "round_half_even (of_int k) = k"
  by (simp add: round_half_even_def)

lemma astype_float32_small:
  "astype_float32 0 = 0" "astype_float32 1 = 1" "astype_float32 2 = 2" "astype_float32 3 = 3"
proof -
  show "astype_float32 0 = 0" by (simp add: astype_float32_def)
  have r: "round_half_even 8388608 = 8388608" "round_half_even 12582912 = 12582912"
    using round_half_even_of_int[of 8388608] round_half_even_of_int[of 12582912] by simp_all
  show "astype_float32 1 = 1"
    by (simp add: astype_float32_def powr_neg_numeral r)
  show "astype_float32 2 = 2"
    by (simp add: astype_float32_def powr_neg_numeral r)
  have "\<lfloor>log 2 (3::real)\<rfloor> = 1"
    by (subst floor_log_eq_powr_iff) simp_all
  then show "astype_float32 3 = 3"
    by (simp add: astype_float32_def powr_neg_numeral r)
qed

lemma astype_float32_category:
  assumes "0 \<le> p" and "p < 4"
  shows "astype_float32 (of_int p) \<in> {0, 1, 2, 3}"
proof -
  from assms have "p = 0 \<or> p = 1 \<or> p = 2 \<or> p = 3" by arith
  then show ?thesis by (auto simp add: astype_float32_small)
qed

lemma row_length: "i < n_samples \<Longrightarrow> length (fst (create_sample_data env) ! i) = 5"
  by (simp add: create_sample_data_unfold Let_def length_np_column_stack nth_np_column_stack
      length_np_random_uniform)

lemma row_categories:
  assumes "i < n_samples"
  shows "fst (create_sample_data env) ! i ! 2 \<in> {0, 1, 2, 3}"
    and "fst (create_sample_data env) ! i ! 3 \<in> {0, 1, 2, 3}"
proof -
  have r: "0 \<le> fst (np_random_randint 0 4 n_samples g) ! i \<and>
           fst (np_random_randint 0 4 n_samples g) ! i < 4" for g
    using np_random_randint_range[of 0 4 i n_samples g] assms by simp
  show "fst (create_sample_data env) ! i ! 2 \<in> {0, 1, 2, 3}"
    using assms r
    by (simp add: create_sample_data_unfold Let_def length_np_column_stack nth_np_column_stack
        length_np_random_uniform length_np_random_randint astype_float32_category
        del: insert_iff)
  show "fst (create_sample_data env) ! i ! 3 \<in> {0, 1, 2, 3}"
    using assms r
    by (simp add: create_sample_data_unfold Let_def length_np_column_stack nth_np_column_stack
        length_np_random_uniform length_np_random_randint astype_float32_category
        del: insert_iff)
qed

lemma labels_binary: "l \<in> set (snd (create_sample_data env)) \<Longrightarrow> l = 0 \<or> l = 1"
  by (auto simp add: create_sample_data_unfold Let_def set_zip)

subsection \<open>The permutation and the split\<close>

lemma shuffle_from_mset: "i < length xs \<Longrightarrow> mset (shuffle_from i xs g) = mset xs"
proof (induction i arbitrary: xs g)
  case 0
  then show ?case by simp
next
  case (Suc i)
  let ?j = "shd g mod Suc (Suc i)"
  have "?j < Suc (Suc i)" by simp
  with Suc.prems have j: "?j < length xs" by linarith
  have "mset (xs[Suc i := xs ! ?j, ?j := xs ! Suc i]) = mset xs"
    using mset_swap[OF j Suc.prems] .
  moreover have "i < length (xs[Suc i := xs ! ?j, ?j := xs ! Suc i])"
    using Suc.prems by simp
  ultimately show ?case
    using Suc.IH[of "xs[Suc i := xs ! ?j, ?j := xs ! Suc i]" "stl g"] by (simp add: Let_def)
qed

lemma permutation_mset: "mset (permutation n g) = mset [0..<n]"
proof (cases n)
  case 0
  then show ?thesis by (simp add: permutation_def)
next
  case (Suc m)
  then show ?thesis by (simp add: permutation_def shuffle_from_mset del: upt_Suc)
qed

lemma permutation_set: "set (permutation n g) = {0..<n}"
  using permutation_mset[of n g] by (metis mset_eq_setD set_upt)

lemma permutation_length: "length (permutation n g) = n"
  using permutation_mset[of n g] by (metis length_upt mset_eq_length minus_nat.diff_0)

lemma train_test_split_ok:
  assumes "length y = length X" and "nat \<lceil>test_size * real (length X)\<rceil> < length X"
  shows "\<exists>Xtr Xte ytr yte. train_test_split env X y test_size seed = Inr (Xtr, Xte, ytr, yte)
     \<and> length Xte = nat \<lceil>test_size * real (length X)\<rceil>
     \<and> length yte = length Xte
     \<and> length Xtr = length X - nat \<lceil>test_size * real (length X)\<rceil>
     \<and> length ytr = length Xtr
     \<and> set Xtr \<subseteq> set X \<and> set Xte \<subseteq> set X \<and> set ytr \<subseteq> set y \<and> set yte \<subseteq> set y"
proof -
  let ?n = "length X"
  let ?p = "permutation ?n (mt19937 env seed)"
  have sub: "set (take k ?p) \<subseteq> {0..<?n}" "set (take k (drop m ?p)) \<subseteq> {0..<?n}"
    "set (drop m ?p) \<subseteq> {0..<?n}" for k m
    using permutation_set[of ?n "mt19937 env seed"]
    by (metis set_take_subset, metis set_take_subset set_drop_subset subset_trans,
        metis set_drop_subset)
  have img: "I \<subseteq> {0..<length zs} \<Longrightarrow> (!) zs ` I \<subseteq> set zs" for I and zs :: "'z list"
    by auto
  show ?thesis
    using assms sub img[of _ X] img[of _ y]
    by (simp add: train_test_split_def Let_def permutation_length min_def)
qed

text \<open>Stage 1 of \<open>main\<close> never raises: 1000 samples are split 700 / 150 / 150.\<close>

lemma split_data_ok:
  "\<exists>d. split_data env = Inr d
     \<and> length (train_X d) = 700 \<and> length (train_y d) = 700
     \<and> length (val_X d) = 150 \<and> length (val_y d) = 150
     \<and> length (test_X d) = 150 \<and> length (test_y d) = 150
     \<and> set (train_X d) \<subseteq> set (fst (create_sample_data env))
     \<and> set (val_X d) \<subseteq> set (fst (create_sample_data env))
     \<and> set (test_X d) \<subseteq> set (fst (create_sample_data env))
     \<and> set (train_y d) \<subseteq> set (snd (create_sample_data env))
     \<and> set (val_y d) \<subseteq> set (snd (create_sample_data env))
     \<and> set (test_y d) \<subseteq> set (snd (create_sample_data env))"
proof -
  obtain X y where Xy: "create_sample_data env = (X, y)"
    by (cases "create_sample_data env")
  have lX: "length X = 1000" and ly: "length y = 1000"
    using length_X[of env] length_y[of env] by (simp_all add: Xy n_samples_def)
  have c1: "nat \<lceil>3 / 10 * real (length X)\<rceil> = 300"
    by (simp add: lX)
  obtain Xtr Xte ytr yte where
    s1: "train_test_split env X y (3 / 10) 42 = Inr (Xtr, Xte, ytr, yte)"
    and l1: "length Xte = 300" "length yte = 300" "length Xtr = 700" "length ytr = 700"
    and i1: "set Xtr \<subseteq> set X" "set Xte \<subseteq> set X" "set ytr \<subseteq> set y" "set yte \<subseteq> set y"
    using train_test_split_ok[of y X "3 / 10" env 42] by (auto simp add: lX ly c1)
  have c2: "nat \<lceil>5 / 10 * real (length Xte)\<rceil> = 150"
    by (simp add: l1)
  obtain Xva Xts yva yts where
    s2: "train_test_split env Xte yte (5 / 10) 42 = Inr (Xva, Xts, yva, yts)"
    and l2: "length Xts = 150" "length yts = 150" "length Xva = 150" "length yva = 150"
    and i2: "set Xva \<subseteq> set Xte" "set Xts \<subseteq> set Xte" "set yva \<subseteq> set yte" "set yts \<subseteq> set yte"
    using train_test_split_ok[of yte Xte "5 / 10" env 42] by (auto simp add: l1 c2)
  have s1': "train_test_split env X y (3 / 10) 42 = Inr (Xtr, Xte, ytr, yte)"
    and s2': "train_test_split env Xte yte (1 / 2) 42 = Inr (Xva, Xts, yva, yts)"
    using s1 s2 by simp_all
  have "split_data env =
      Inr \<lparr>train_X = Xtr, train_y = ytr, val_X = Xva, val_y = yva, test_X = Xts, test_y = yts\<rparr>"
    by (simp add: split_data_def Xy s1' s2')
  then show ?thesis
    using l1 l2 i1 i2 by (auto simp add: Xy)
qed

section \<open>Properties of the export functions\<close>

subsection \<open>The prints of \<open>main\<close> cannot raise\<close>

lemma print_all_ascii:
  "list_all (list_all segment_ascii) ls \<Longrightarrow> print_all env ls = Inr ()"
  by (induction ls) (simp_all add: py_print_def)

lemma print_all_unicode: "stdout_unicode env \<Longrightarrow> print_all env ls = Inr ()"
  by (induction ls) (simp_all add: py_print_def)

lemma ascii_replicate: "list_all (\<lambda>c. \<not> digit7 c) (replicate n CHR ''='')"
  by (simp add: list_all_iff)

lemma print_lines_start: "print_all env lines_start = Inr ()"
  by (rule print_all_ascii) (simp add: lines_start_def ascii_replicate)

lemma print_lines_split: "print_all env (lines_split d) = Inr ()"
  by (rule print_all_ascii) (simp add: lines_split_def)

lemma print_lines_trained: "print_all env (lines_trained train_acc test_acc) = Inr ()"
  by (rule print_all_ascii) (simp add: lines_trained_def)

lemma print_lines_complete: "print_all env lines_complete = Inr ()"
  by (rule print_all_ascii) (simp add: lines_complete_def ascii_replicate)

lemma print_line_4: "print_all env [[Lit (CHR 0x0A # ''4. Exporting feature metadata...'')]] = Inr ()"
  by (rule print_all_ascii) simp

lemma print_line_5:
  "print_all env [[Lit (CHR 0x0A # ''5. Calibrating model and exporting parameters...'')]] = Inr ()"
  by (rule print_all_ascii) simp

lemma print_check_mark:
  "py_print env [Lit (check_mark @ text)] =
     (if stdout_unicode env then Inr () else Inl UnicodeEncodeError)"
  by (simp add: py_print_def check_mark_def)

lemma print_calibration_lines:
  "print_all env [[Lit (check_mark @ text)], [Lit ''  Platt scaling: a='', Fmt4f a, Lit '', b='', Fmt4f b]] =
     (if stdout_unicode env then Inr () else Inl UnicodeEncodeError)"
  by (simp add: py_print_def check_mark_def)

subsection \<open>What each function leaves in the file system\<close>

lemma export_to_onnx_eq:
  "export_to_onnx env model output_path fs =
     (case onnx_graph env model [(''float_input'', FloatTensorType [None, Some 5])] 12 of
        Inl e \<Rightarrow> (Inl e, fs)
      | Inr g \<Rightarrow>
          (case disk env output_path of
             OpenFails \<Rightarrow> (Inl (OSError output_path), fs)
           | WriteFails \<Rightarrow> (Inl (OSError output_path), fs(output_path \<mapsto> Partial))
           | Written \<Rightarrow>
               (if stdout_unicode env then Inr output_path else Inl UnicodeEncodeError,
                fs(output_path \<mapsto> OnnxFile
                  \<lparr>graph_inputs = [(''float_input'', FloatTensorType [None, Some 5])],
                   graph = g\<rparr>))))"
  unfolding export_to_onnx_def convert_xgboost_def write_file_def print_check_mark Let_def
  by (simp split: sum.splits write_outcome.splits)

lemma export_feature_metadata_eq:
  "export_feature_metadata env output_path fs =
     (case disk env output_path of
        OpenFails \<Rightarrow> (Inl (OSError output_path), fs)
      | WriteFails \<Rightarrow> (Inl (OSError output_path), fs(output_path \<mapsto> Partial))
      | Written \<Rightarrow>
          (if stdout_unicode env then Inr output_path else Inl UnicodeEncodeError,
           fs(output_path \<mapsto> JsonFile metadata)))"
  unfolding export_feature_metadata_def write_file_def print_check_mark
  by (simp split: write_outcome.splits)

lemma calibrate_and_export_eq:
  "calibrate_and_export env model X y output_path fs =
     (case calibrated_fit env model ''sigmoid'' ''prefit'' X y of
        Inl e \<Rightarrow> (Inl e, fs)
      | Inr [] \<Rightarrow> (Inl IndexError, fs)
      | Inr (c # cs) \<Rightarrow>
          (case cal_a c of
             None \<Rightarrow> (Inl (AttributeError ''a_''), fs)
           | Some a \<Rightarrow>
               (case cal_b c of
                  None \<Rightarrow> (Inl (AttributeError ''b_''), fs)
                | Some b \<Rightarrow>
                    (case disk env output_path of
                       OpenFails \<Rightarrow> (Inl (OSError output_path), fs)
                     | WriteFails \<Rightarrow> (Inl (OSError output_path), fs(output_path \<mapsto> Partial))
                     | Written \<Rightarrow>
                         (if stdout_unicode env then Inr output_path else Inl UnicodeEncodeError,
                          fs(output_path \<mapsto> JsonFile (calibration_params a b)))))))"
  unfolding calibrate_and_export_def write_file_def print_calibration_lines
  by (simp split: sum.splits list.splits option.splits write_outcome.splits)

lemma main_eq:
  assumes "split_data env = Inr d"
  shows "main env fs =
     (case train_model env (train_X d) (train_y d) of
        Inl e \<Rightarrow> (Inl e, fs)
      | Inr model \<Rightarrow>
     (case xgb_score env model (train_X d) (train_y d) of
        Inl e \<Rightarrow> (Inl e, fs)
      | Inr train_acc \<Rightarrow>
     (case xgb_score env model (test_X d) (test_y d) of
        Inl e \<Rightarrow> (Inl e, fs)
      | Inr test_acc \<Rightarrow>
     (case export_to_onnx env model ''claim_denial_model.onnx'' fs of
        (Inl e, fs1) \<Rightarrow> (Inl e, fs1)
      | (Inr _, fs1) \<Rightarrow>
     (case export_feature_metadata env ''feature_metadata.json'' fs1 of
        (Inl e, fs2) \<Rightarrow> (Inl e, fs2)
      | (Inr _, fs2) \<Rightarrow>
     (case calibrate_and_export env model (val_X d) (val_y d) ''calibration_params.json'' fs2 of
        (Inl e, fs3) \<Rightarrow> (Inl e, fs3)
      | (Inr _, fs3) \<Rightarrow> (Inr (), fs3)))))))"
  unfolding main_def assms print_lines_start print_lines_split print_lines_trained
    print_lines_complete print_line_4 print_line_5
  by (simp split: sum.splits prod.splits)

text \<open>A call changes the file system at its output path only.\<close>

lemma export_feature_metadata_other:
  "export_feature_metadata env output_path fs = (r, fs') \<Longrightarrow> q \<noteq> output_path \<Longrightarrow> fs' q = fs q"
  by (auto simp add: export_feature_metadata_eq split: write_outcome.splits)

lemma calibrate_and_export_other:
  "calibrate_and_export env model X y output_path fs = (r, fs') \<Longrightarrow> q \<noteq> output_path
     \<Longrightarrow> fs' q = fs q"
  by (auto simp add: calibrate_and_export_eq
      split: sum.splits list.splits option.splits write_outcome.splits)

lemma export_to_onnx_Inr:
  assumes "export_to_onnx env model output_path fs = (Inr p, fs')"
  shows "\<exists>g. onnx_graph env model [(''float_input'', FloatTensorType [None, Some 5])] 12 = Inr g
          \<and> disk env output_path = Written \<and> stdout_unicode env \<and> p = output_path
          \<and> fs' = fs(output_path \<mapsto> OnnxFile
                \<lparr>graph_inputs = [(''float_input'', FloatTensorType [None, Some 5])],
                 graph = g\<rparr>)"
  using assms
  by (auto simp add: export_to_onnx_eq split: sum.splits write_outcome.splits if_splits)

lemma export_feature_metadata_Inr:
  assumes "export_feature_metadata env output_path fs = (Inr p, fs')"
  shows "disk env output_path = Written \<and> stdout_unicode env \<and> p = output_path
         \<and> fs' = fs(output_path \<mapsto> JsonFile metadata)"
  using assms
  by (auto simp add: export_feature_metadata_eq split: write_outcome.splits if_splits)

lemma calibrate_and_export_Inr:
  assumes "calibrate_and_export env model X y output_path fs = (Inr p, fs')"
  shows "\<exists>c cs a b. calibrated_fit env model ''sigmoid'' ''prefit'' X y = Inr (c # cs)
          \<and> cal_a c = Some a \<and> cal_b c = Some b
          \<and> disk env output_path = Written \<and> stdout_unicode env \<and> p = output_path
          \<and> fs' = fs(output_path \<mapsto> JsonFile (calibration_params a b))"
  using assms
  by (auto simp add: calibrate_and_export_eq
      split: sum.splits list.splits option.splits write_outcome.splits if_splits)

text \<open>What the output path holds after \<open>calibrate_and_export\<close>, however the call ends.\<close>

lemma calibrate_and_export_file:
  assumes "calibrate_and_export env model X y output_path fs = (r, fs')"
  shows "fs' = fs \<or> fs' = fs(output_path \<mapsto> Partial)
       \<or> (\<exists>c cs a b. calibrated_fit env model ''sigmoid'' ''prefit'' X y = Inr (c # cs)
             \<and> cal_a c = Some a \<and> cal_b c = Some b
             \<and> fs' = fs(output_path \<mapsto> JsonFile (calibration_params a b)))"
  using assms
  by (auto simp add: calibrate_and_export_eq
      split: sum.splits list.splits option.splits write_outcome.splits if_splits)

lemma input_width_declared:
  "input_width \<lparr>graph_inputs = [(name, FloatTensorType [batch, Some w])], graph = g\<rparr> = Some w"
  by (simp add: input_width_def)

lemma export_to_onnx_width:
  assumes "export_to_onnx env model output_path fs = (Inr p, fs')"
  shows "\<exists>m. input_width m = Some 5 \<and> fs' = fs(output_path \<mapsto> OnnxFile m)"
proof -
  from export_to_onnx_Inr[OF assms] obtain g where
    "fs' = fs(output_path \<mapsto> OnnxFile
        \<lparr>graph_inputs = [(''float_input'', FloatTensorType [None, Some 5])], graph = g\<rparr>)"
    by blast
  then show ?thesis
    using input_width_declared[of "''float_input''" None 5 g] by blast
qed

subsection \<open>The literal metadata\<close>

lemma metadata_features:
  "map feature_index (features_of metadata) = [Some 0, Some 1, Some 2, Some 3, Some 4]"
  by (simp add: metadata_def features_of_def feature_index_def)

lemma metadata_length: "length (features_of metadata) = 5"
  by (simp add: metadata_def features_of_def)

lemma metadata_types:
  "map feature_type (features_of metadata) =
     [Some ''NUMERIC'', Some ''NUMERIC'', Some ''CATEGORICAL'', Some ''CATEGORICAL'', Some ''NUMERIC'']"
  by (simp add: metadata_def features_of_def feature_type_def)

subsection \<open>The training width of the pipeline\<close>

lemma row_in_set_length:
  assumes "row \<in> set (fst (create_sample_data env))"
  shows "length row = 5"
proof -
  from assms obtain i where "i < n_samples" and "fst (create_sample_data env) ! i = row"
    by (auto simp add: in_set_conv_nth length_X)
  then show ?thesis using row_length[of i env] by simp
qed

lemma ncols_train_X:
  assumes "split_data env = Inr d"
  shows "ncols (train_X d) = 5"
proof -
  from split_data_ok[of env] assms
  have len: "length (train_X d) = 700"
    and sub: "set (train_X d) \<subseteq> set (fst (create_sample_data env))"
    by auto
  from len obtain row rest where rows: "train_X d = row # rest"
    by (cases "train_X d") auto
  then have "row \<in> set (fst (create_sample_data env))" using sub by auto
  then show ?thesis using rows by (simp add: ncols_def row_in_set_length)
qed

lemma split_data_projr: "split_data env = Inr (projr (split_data env))"
  using split_data_ok[of env] by auto

subsection \<open>The stages in the concrete environments\<close>

lemma env_ok_fields:
  "xgb_train env_ok = (\<lambda>params X y. Inr ())"
  "xgb_score env_ok = (\<lambda>model X y. Inr 1)"
  "onnx_graph env_ok = (\<lambda>model initial_types target_opset. Inr ())"
  "calibrated_fit env_ok = (\<lambda>model method cv X y. Inr [\<lparr>cal_a = None, cal_b = None\<rparr>])"
  "disk env_ok = (\<lambda>path. Written)"
  "stdout_unicode env_ok"
  by (simp_all add: env_ok_def)

lemma train_model_env_ok: "train_model env_ok X y = Inr (fitted (ncols X))"
  by (simp add: train_model_def XGBClassifier_fit_def env_ok_fields fitted_def)

lemma export_to_onnx_env_ok:
  "export_to_onnx env_ok model path fs =
     (Inr path, fs(path \<mapsto> OnnxFile
        \<lparr>graph_inputs = [(''float_input'', FloatTensorType [None, Some 5])], graph = ()\<rparr>))"
  by (simp add: export_to_onnx_eq env_ok_fields)

lemma export_feature_metadata_env_ok:
  "export_feature_metadata env_ok path fs = (Inr path, fs(path \<mapsto> JsonFile metadata))"
  by (simp add: export_feature_metadata_eq env_ok_fields)

lemma calibrate_and_export_env_ok:
  "calibrate_and_export env_ok model X y path fs = (Inl (AttributeError ''a_''), fs)"
  by (simp add: calibrate_and_export_eq env_ok_fields)

lemma main_env_ok:
  "main env_ok fs =
     (Inl (AttributeError ''a_''),
      fs(''claim_denial_model.onnx'' \<mapsto> OnnxFile
           \<lparr>graph_inputs = [(''float_input'', FloatTensorType [None, Some 5])], graph = ()\<rparr>,
         ''feature_metadata.json'' \<mapsto> JsonFile metadata))"
  by (simp add: main_eq[OF split_data_projr] train_model_env_ok export_to_onnx_env_ok
      export_feature_metadata_env_ok calibrate_and_export_env_ok env_ok_fields)

lemma other_fields:
  "xgb_train env_ascii_console = xgb_train env_ok"
  "xgb_score env_ascii_console = xgb_score env_ok"
  "onnx_graph env_ascii_console = onnx_graph env_ok"
  "calibrated_fit env_ascii_console = calibrated_fit env_ok"
  "disk env_ascii_console = disk env_ok"
  "\<not> stdout_unicode env_ascii_console"
  "xgb_train env_metadata_readonly = xgb_train env_ok"
  "xgb_score env_metadata_readonly = xgb_score env_ok"
  "onnx_graph env_metadata_readonly = onnx_graph env_ok"
  "calibrated_fit env_metadata_readonly = calibrated_fit env_ok"
  "disk env_metadata_readonly =
     (\<lambda>path. if path = ''feature_metadata.json'' then OpenFails else Written)"
  "stdout_unicode env_metadata_readonly"
  "xgb_train env_exposing_ab = xgb_train env_ok"
  "xgb_score env_exposing_ab = xgb_score env_ok"
  "onnx_graph env_exposing_ab = onnx_graph env_ok"
  "calibrated_fit env_exposing_ab =
     (\<lambda>model method cv X y. Inr [\<lparr>cal_a = Some (Finite (- 2)), cal_b = Some (Finite (1 / 2))\<rparr>])"
  "disk env_exposing_ab = disk env_ok"
  "stdout_unicode env_exposing_ab"
  by (simp_all add: env_ascii_console_def env_metadata_readonly_def env_exposing_ab_def env_ok_def)

lemma train_model_others:
  "train_model env_ascii_console X y = Inr (fitted (ncols X))"
  "train_model env_metadata_readonly X y = Inr (fitted (ncols X))"
  "train_model env_exposing_ab X y = Inr (fitted (ncols X))"
  by (simp_all add: train_model_def XGBClassifier_fit_def other_fields env_ok_fields fitted_def)

lemma ncols_train_X_projr: "ncols (train_X (projr (split_data env))) = 5"
  by (rule ncols_train_X) (rule split_data_projr)

subsection \<open>The first sample in the concrete environment\<close>

lemma raw_env_ok: "mt19937 env_ok 42 !! k = 42 + k"
  by (simp add: env_ok_def)

lemma raw_env_ok_shd: "shd (mt19937 env_ok 42) = 42"
  by (simp add: env_ok_def)

lemma np_random_randint_snd: "snd (np_random_randint low high n g) = sdrop n g"
  by (simp add: np_random_randint_def)

lemma np_random_uniform_snd: "snd (np_random_uniform low high n g) = sdrop n g"
  by (simp add: np_random_uniform_def np_random_random_def)

lemma np_random_randint_nth:
  "i < n \<Longrightarrow> fst (np_random_randint low high n g) ! i = low + int (g !! i) mod (high - low)"
  by (simp add: np_random_randint_def)

lemma first_row_env_ok:
  "fst (create_sample_data env_ok) ! 0 ! 2 = 2" "fst (create_sample_data env_ok) ! 0 ! 3 = 2"
  by (simp_all add: create_sample_data_unfold Let_def length_np_column_stack nth_np_column_stack
      length_np_random_uniform length_np_random_randint np_random_randint_snd
      np_random_uniform_snd np_random_randint_nth raw_env_ok sdrop_snth
      n_samples_def astype_float32_small)

lemma first_label_env_ok: "snd (create_sample_data env_ok) ! 0 = 0"
  by (simp add: create_sample_data_unfold Let_def
      length_np_random_uniform length_np_random_randint length_np_random_random
      np_random_randint_snd np_random_uniform_snd np_random_randint_nth raw_env_ok sdrop_snth
      raw_env_ok_shd n_samples_def np_random_random_def np_random_uniform_def)

section \<open>The claims\<close>

text \<open>
  Claim C1, as the code has it. The artifact \<open>export_to_onnx\<close> writes always declares
  input width 5, the feature count of the metadata, whatever model it is given; in the
  pipeline the model was trained on 5 columns as well. The function takes no width and
  compares none with the model: for a model of any trained width, whenever the library
  conversion and the write of the file succeed, the artifact is written, declaring width
  5, and on a console that can show the message the call returns normally.
\<close>

theorem export_to_onnx_declares_five:
  "(export_to_onnx env model output_path fs = (Inr p, fs') \<longrightarrow>
      p = output_path \<and>
      (\<exists>m. fs' = fs(output_path \<mapsto> OnnxFile m) \<and> input_width m = Some 5 \<and>
           input_width m = Some (length (features_of metadata))))
   \<and> (onnx_graph env model [(''float_input'', FloatTensorType [None, Some 5])] 12 = Inr g
        \<and> disk env output_path = Written \<longrightarrow>
      snd (export_to_onnx env model output_path fs) =
        fs(output_path \<mapsto> OnnxFile
             \<lparr>graph_inputs = [(''float_input'', FloatTensorType [None, Some 5])], graph = g\<rparr>)
      \<and> (stdout_unicode env \<longrightarrow>
           fst (export_to_onnx env model output_path fs) = Inr output_path))
   \<and> (split_data env = Inr d \<and> train_model env (train_X d) (train_y d) = Inr trained \<longrightarrow>
      n_features_in trained = 5)"
proof (intro conjI impI)
  assume a: "export_to_onnx env model output_path fs = (Inr p, fs')"
  from export_to_onnx_Inr[OF a] show "p = output_path" by blast
  from export_to_onnx_width[OF a]
  show "\<exists>m. fs' = fs(output_path \<mapsto> OnnxFile m) \<and> input_width m = Some 5 \<and>
           input_width m = Some (length (features_of metadata))"
    by (auto simp add: metadata_length)
next
  assume a: "onnx_graph env model [(''float_input'', FloatTensorType [None, Some 5])] 12 = Inr g
        \<and> disk env output_path = Written"
  then show "snd (export_to_onnx env model output_path fs) =
        fs(output_path \<mapsto> OnnxFile
             \<lparr>graph_inputs = [(''float_input'', FloatTensorType [None, Some 5])], graph = g\<rparr>)"
    by (simp add: export_to_onnx_eq)
  assume "stdout_unicode env"
  with a show "fst (export_to_onnx env model output_path fs) = Inr output_path"
    by (simp add: export_to_onnx_eq)
next
  assume "split_data env = Inr d \<and> train_model env (train_X d) (train_y d) = Inr trained"
  then show "n_features_in trained = 5"
    using ncols_train_X[of env d]
    by (auto simp add: train_model_def XGBClassifier_fit_def split: sum.splits)
qed

theorem export_to_onnx_declares_five_witness:
  "export_to_onnx env_ok (fitted 5) ''claim_denial_model.onnx'' Map.empty =
     (Inr ''claim_denial_model.onnx'',
      [''claim_denial_model.onnx'' \<mapsto> OnnxFile
         \<lparr>graph_inputs = [(''float_input'', FloatTensorType [None, Some 5])], graph = ()\<rparr>])
   \<and> onnx_graph env_ok (fitted 5) [(''float_input'', FloatTensorType [None, Some 5])] 12 = Inr ()
   \<and> disk env_ok ''claim_denial_model.onnx'' = Written
   \<and> stdout_unicode env_ok
   \<and> split_data env_ok = Inr (projr (split_data env_ok))
   \<and> train_model env_ok (train_X (projr (split_data env_ok))) (train_y (projr (split_data env_ok)))
       = Inr (fitted 5)"
proof -
  let ?d = "projr (split_data env_ok)"
  have d: "split_data env_ok = Inr ?d" by (rule split_data_projr)
  have t: "train_model env_ok (train_X ?d) (train_y ?d) = Inr (fitted (ncols (train_X ?d)))"
    by (rule train_model_env_ok)
  have g: "onnx_graph env_ok (fitted 5) [(''float_input'', FloatTensorType [None, Some 5])] 12
             = Inr ()"
    and w: "disk env_ok ''claim_denial_model.onnx'' = Written"
    and u: "stdout_unicode env_ok"
    by (simp_all add: env_ok_fields)
  note c = export_to_onnx_declares_five
      [of env_ok "fitted 5" "''claim_denial_model.onnx''" Map.empty
          "''claim_denial_model.onnx''"
          "snd (export_to_onnx env_ok (fitted 5) ''claim_denial_model.onnx'' Map.empty)"
          "()" ?d "fitted (ncols (train_X ?d))"]
  from c d t have "n_features_in (fitted (ncols (train_X ?d))) = 5" by blast
  then have n: "fitted (ncols (train_X ?d)) = fitted 5" by (simp add: fitted_def)
  from c g w u have
    "snd (export_to_onnx env_ok (fitted 5) ''claim_denial_model.onnx'' Map.empty) =
       [''claim_denial_model.onnx'' \<mapsto> OnnxFile
          \<lparr>graph_inputs = [(''float_input'', FloatTensorType [None, Some 5])], graph = ()\<rparr>]"
    and "fst (export_to_onnx env_ok (fitted 5) ''claim_denial_model.onnx'' Map.empty)
           = Inr ''claim_denial_model.onnx''"
    by blast+
  then have s: "export_to_onnx env_ok (fitted 5) ''claim_denial_model.onnx'' Map.empty =
     (Inr ''claim_denial_model.onnx'',
      [''claim_denial_model.onnx'' \<mapsto> OnnxFile
         \<lparr>graph_inputs = [(''float_input'', FloatTensorType [None, Some 5])], graph = ()\<rparr>])"
    by (simp add: prod_eq_iff)
  show ?thesis using s g w u d t n by simp
qed

text \<open>
  Claim C1 as stated fails: a model fitted on three columns is exported without any
  ShapeMismatch, and the artifact is written, declaring width 5.
\<close>

theorem export_to_onnx_shape_mismatch_counterexample:
  "train_model env_ok [[1, 2, 3], [4, 5, 6]] [0, 1] = Inr (fitted 3)
   \<and> n_features_in (fitted 3) \<noteq> length (features_of metadata)
   \<and> export_to_onnx env_ok (fitted 3) ''claim_denial_model.onnx'' Map.empty =
       (Inr ''claim_denial_model.onnx'',
        [''claim_denial_model.onnx'' \<mapsto> OnnxFile
           \<lparr>graph_inputs = [(''float_input'', FloatTensorType [None, Some 5])], graph = ()\<rparr>])"
  by (simp add: train_model_env_ok ncols_def fitted_def metadata_length export_to_onnx_env_ok)

text \<open>
  Claim C2, as the code has it. \<open>main\<close> writes each file under its final name when its
  stage is reached and removes nothing afterwards. When one of the three export stages
  fails, \<open>main\<close> stops with that stage's error and the file system is as that stage
  left it: a failed model export leaves what it had done to the artifact; a failed
  metadata export leaves the complete artifact; a failed calibration leaves the complete
  artifact and the complete metadata. When all three return, \<open>main\<close> returns with all
  three files written, the artifact's declared width being the metadata's feature count.
\<close>

theorem main_keeps_completed_stages:
  assumes "split_data env = Inr d"
    and "train_model env (train_X d) (train_y d) = Inr model"
    and "xgb_score env model (train_X d) (train_y d) = Inr train_acc"
    and "xgb_score env model (test_X d) (test_y d) = Inr test_acc"
    and "export_to_onnx env model ''claim_denial_model.onnx'' fs = (r1, fs1)"
    and "export_feature_metadata env ''feature_metadata.json'' fs1 = (r2, fs2)"
    and "calibrate_and_export env model (val_X d) (val_y d) ''calibration_params.json'' fs2
           = (r3, fs3)"
  shows "(\<forall>e. r1 = Inl e \<longrightarrow> main env fs = (Inl e, fs1))
       \<and> (\<forall>p e. r1 = Inr p \<and> r2 = Inl e \<longrightarrow>
             main env fs = (Inl e, fs2)
           \<and> (\<exists>m. input_width m = Some 5 \<and> fs2 ''claim_denial_model.onnx'' = Some (OnnxFile m)))
       \<and> (\<forall>p q e. r1 = Inr p \<and> r2 = Inr q \<and> r3 = Inl e \<longrightarrow>
             main env fs = (Inl e, fs3)
           \<and> (\<exists>m. input_width m = Some 5 \<and> fs3 ''claim_denial_model.onnx'' = Some (OnnxFile m))
           \<and> fs3 ''feature_metadata.json'' = Some (JsonFile metadata))
       \<and> (\<forall>p q s. r1 = Inr p \<and> r2 = Inr q \<and> r3 = Inr s \<longrightarrow>
             main env fs = (Inr (), fs3)
           \<and> (\<exists>m a b. input_width m = Some (length (features_of metadata)) \<and>
                 fs3 = fs(''claim_denial_model.onnx'' \<mapsto> OnnxFile m,
                          ''feature_metadata.json'' \<mapsto> JsonFile metadata,
                          ''calibration_params.json'' \<mapsto> JsonFile (calibration_params a b))))"
proof -
  note m = main_eq[OF assms(1), of fs] assms(2-4)
  have c1: "\<forall>e. r1 = Inl e \<longrightarrow> main env fs = (Inl e, fs1)"
    using m assms(5) by simp
  have onnx1: "\<exists>m. input_width m = Some 5 \<and> fs1 = fs(''claim_denial_model.onnx'' \<mapsto> OnnxFile m)"
    if "r1 = Inr p" for p
    using export_to_onnx_width[of env model "''claim_denial_model.onnx''" fs p fs1] assms(5) that
    by simp
  have keep2: "fs2 ''claim_denial_model.onnx'' = fs1 ''claim_denial_model.onnx''"
    using export_feature_metadata_other[OF assms(6), of "''claim_denial_model.onnx''"] by simp
  have keep3: "fs3 ''claim_denial_model.onnx'' = fs2 ''claim_denial_model.onnx''"
    "fs3 ''feature_metadata.json'' = fs2 ''feature_metadata.json''"
    using calibrate_and_export_other[OF assms(7), of "''claim_denial_model.onnx''"]
      calibrate_and_export_other[OF assms(7), of "''feature_metadata.json''"] by simp_all
  have meta2: "fs2 = fs1(''feature_metadata.json'' \<mapsto> JsonFile metadata)" if "r2 = Inr q" for q
    using export_feature_metadata_Inr[of env "''feature_metadata.json''" fs1 q fs2] assms(6) that
    by simp
  have c2: "\<forall>p e. r1 = Inr p \<and> r2 = Inl e \<longrightarrow>
             main env fs = (Inl e, fs2)
           \<and> (\<exists>m. input_width m = Some 5 \<and> fs2 ''claim_denial_model.onnx'' = Some (OnnxFile m))"
  proof (intro allI impI)
    fix p e assume a: "r1 = Inr p \<and> r2 = Inl e"
    have "main env fs = (Inl e, fs2)" using m assms(5,6) a by simp
    moreover from onnx1[of p] a keep2
    have "\<exists>m. input_width m = Some 5 \<and> fs2 ''claim_denial_model.onnx'' = Some (OnnxFile m)"
      by auto
    ultimately show "main env fs = (Inl e, fs2)
           \<and> (\<exists>m. input_width m = Some 5 \<and> fs2 ''claim_denial_model.onnx'' = Some (OnnxFile m))"
      by blast
  qed
  have c3: "\<forall>p q e. r1 = Inr p \<and> r2 = Inr q \<and> r3 = Inl e \<longrightarrow>
             main env fs = (Inl e, fs3)
           \<and> (\<exists>m. input_width m = Some 5 \<and> fs3 ''claim_denial_model.onnx'' = Some (OnnxFile m))
           \<and> fs3 ''feature_metadata.json'' = Some (JsonFile metadata)"
  proof (intro allI impI)
    fix p q e assume a: "r1 = Inr p \<and> r2 = Inr q \<and> r3 = Inl e"
    have "main env fs = (Inl e, fs3)" using m assms(5,6,7) a by simp
    moreover from onnx1[of p] a keep2 keep3
    have "\<exists>m. input_width m = Some 5 \<and> fs3 ''claim_denial_model.onnx'' = Some (OnnxFile m)"
      by auto
    moreover from meta2[of q] a keep3
    have "fs3 ''feature_metadata.json'' = Some (JsonFile metadata)" by simp
    ultimately show "main env fs = (Inl e, fs3)
           \<and> (\<exists>m. input_width m = Some 5 \<and> fs3 ''claim_denial_model.onnx'' = Some (OnnxFile m))
           \<and> fs3 ''feature_metadata.json'' = Some (JsonFile metadata)"
      by blast
  qed
  have c4: "\<forall>p q s. r1 = Inr p \<and> r2 = Inr q \<and> r3 = Inr s \<longrightarrow>
             main env fs = (Inr (), fs3)
           \<and> (\<exists>m a b. input_width m = Some (length (features_of metadata)) \<and>
                 fs3 = fs(''claim_denial_model.onnx'' \<mapsto> OnnxFile m,
                          ''feature_metadata.json'' \<mapsto> JsonFile metadata,
                          ''calibration_params.json'' \<mapsto> JsonFile (calibration_params a b)))"
  proof (intro allI impI)
    fix p q s assume a: "r1 = Inr p \<and> r2 = Inr q \<and> r3 = Inr s"
    have r: "main env fs = (Inr (), fs3)" using m assms(5,6,7) a by simp
    from a assms(7) obtain a' b' where
      "fs3 = fs2(''calibration_params.json'' \<mapsto> JsonFile (calibration_params a' b'))"
      using calibrate_and_export_Inr
        [of env model "val_X d" "val_y d" "''calibration_params.json''" fs2 s fs3]
      by auto
    with onnx1[of p] meta2[of q] a r show "main env fs = (Inr (), fs3)
           \<and> (\<exists>m a b. input_width m = Some (length (features_of metadata)) \<and>
                 fs3 = fs(''claim_denial_model.onnx'' \<mapsto> OnnxFile m,
                          ''feature_metadata.json'' \<mapsto> JsonFile metadata,
                          ''calibration_params.json'' \<mapsto> JsonFile (calibration_params a b)))"
      by (auto simp add: metadata_length)
  qed
  from c1 c2 c3 c4 show ?thesis by blast
qed

theorem main_keeps_completed_stages_witness:
  "export_to_onnx env_ascii_console (fitted 5) ''claim_denial_model.onnx'' Map.empty =
     (Inl UnicodeEncodeError,
      [''claim_denial_model.onnx'' \<mapsto> OnnxFile
         \<lparr>graph_inputs = [(''float_input'', FloatTensorType [None, Some 5])], graph = ()\<rparr>])
   \<and> main env_ascii_console Map.empty =
     (Inl UnicodeEncodeError,
      [''claim_denial_model.onnx'' \<mapsto> OnnxFile
         \<lparr>graph_inputs = [(''float_input'', FloatTensorType [None, Some 5])], graph = ()\<rparr>])
   \<and> export_feature_metadata env_metadata_readonly ''feature_metadata.json''
       [''claim_denial_model.onnx'' \<mapsto> OnnxFile
          \<lparr>graph_inputs = [(''float_input'', FloatTensorType [None, Some 5])], graph = ()\<rparr>] =
     (Inl (OSError ''feature_metadata.json''),
      [''claim_denial_model.onnx'' \<mapsto> OnnxFile
         \<lparr>graph_inputs = [(''float_input'', FloatTensorType [None, Some 5])], graph = ()\<rparr>])
   \<and> main env_metadata_readonly Map.empty =
     (Inl (OSError ''feature_metadata.json''),
      [''claim_denial_model.onnx'' \<mapsto> OnnxFile
         \<lparr>graph_inputs = [(''float_input'', FloatTensorType [None, Some 5])], graph = ()\<rparr>])
   \<and> main env_ok Map.empty =
     (Inl (AttributeError ''a_''),
      [''claim_denial_model.onnx'' \<mapsto> OnnxFile
         \<lparr>graph_inputs = [(''float_input'', FloatTensorType [None, Some 5])], graph = ()\<rparr>,
       ''feature_metadata.json'' \<mapsto> JsonFile metadata])
   \<and> main env_exposing_ab Map.empty =
     (Inr (),
      [''claim_denial_model.onnx'' \<mapsto> OnnxFile
         \<lparr>graph_inputs = [(''float_input'', FloatTensorType [None, Some 5])], graph = ()\<rparr>,
       ''feature_metadata.json'' \<mapsto> JsonFile metadata,
       ''calibration_params.json'' \<mapsto>
         JsonFile (calibration_params (Finite (- 2)) (Finite (1 / 2)))])"
proof -
  let ?A = "OnnxFile \<lparr>graph_inputs = [(''float_input'', FloatTensorType [None, Some 5])],
              graph = ()\<rparr> :: unit file_content"
  let ?f1 = "[''claim_denial_model.onnx'' \<mapsto> ?A]"
  let ?f2 = "[''claim_denial_model.onnx'' \<mapsto> ?A, ''feature_metadata.json'' \<mapsto> JsonFile metadata]"
  let ?f3 = "[''claim_denial_model.onnx'' \<mapsto> ?A, ''feature_metadata.json'' \<mapsto> JsonFile metadata,
              ''calibration_params.json'' \<mapsto>
                JsonFile (calibration_params (Finite (- 2)) (Finite (1 / 2)))]"
  note n = ncols_train_X_projr
  txt \<open>The console cannot show the check mark: the model export fails after its write.\<close>
  let ?d = "projr (split_data env_ascii_console)"
  have a1: "export_to_onnx env_ascii_console (fitted 5) ''claim_denial_model.onnx'' Map.empty
              = (Inl UnicodeEncodeError, ?f1)"
    and a2: "export_feature_metadata env_ascii_console ''feature_metadata.json'' ?f1
              = (Inl UnicodeEncodeError, ?f2)"
    and a3: "calibrate_and_export env_ascii_console (fitted 5) (val_X ?d) (val_y ?d)
               ''calibration_params.json'' ?f2 = (Inl (AttributeError ''a_''), ?f2)"
    by (simp_all add: export_to_onnx_eq export_feature_metadata_eq calibrate_and_export_eq
        other_fields env_ok_fields)
  have a: "main env_ascii_console Map.empty = (Inl UnicodeEncodeError, ?f1)"
    using main_keeps_completed_stages
      [OF split_data_projr, of env_ascii_console "fitted 5" 1 1 Map.empty _ _ _ _ _ _, OF _ _ _ a1 a2 a3]
    by (simp add: train_model_others n other_fields env_ok_fields)
  txt \<open>The metadata file cannot be opened: the artifact stays.\<close>
  let ?d = "projr (split_data env_metadata_readonly)"
  have b1: "export_to_onnx env_metadata_readonly (fitted 5) ''claim_denial_model.onnx'' Map.empty
              = (Inr ''claim_denial_model.onnx'', ?f1)"
    and b2: "export_feature_metadata env_metadata_readonly ''feature_metadata.json'' ?f1
              = (Inl (OSError ''feature_metadata.json''), ?f1)"
    and b3: "calibrate_and_export env_metadata_readonly (fitted 5) (val_X ?d) (val_y ?d)
               ''calibration_params.json'' ?f1 = (Inl (AttributeError ''a_''), ?f1)"
    by (simp_all add: export_to_onnx_eq export_feature_metadata_eq calibrate_and_export_eq
        other_fields env_ok_fields)
  have b: "main env_metadata_readonly Map.empty = (Inl (OSError ''feature_metadata.json''), ?f1)"
    using main_keeps_completed_stages
      [OF split_data_projr, of env_metadata_readonly "fitted 5" 1 1 Map.empty _ _ _ _ _ _,
        OF _ _ _ b1 b2 b3]
    by (simp add: train_model_others n other_fields env_ok_fields)
  txt \<open>The calibrated classifier has no \<open>a_\<close>: artifact and metadata stay.\<close>
  let ?d = "projr (split_data env_ok)"
  have c1: "export_to_onnx env_ok (fitted 5) ''claim_denial_model.onnx'' Map.empty
              = (Inr ''claim_denial_model.onnx'', ?f1)"
    and c2: "export_feature_metadata env_ok ''feature_metadata.json'' ?f1
              = (Inr ''feature_metadata.json'', ?f2)"
    and c3: "calibrate_and_export env_ok (fitted 5) (val_X ?d) (val_y ?d)
               ''calibration_params.json'' ?f2 = (Inl (AttributeError ''a_''), ?f2)"
    by (simp_all add: export_to_onnx_env_ok export_feature_metadata_env_ok
        calibrate_and_export_env_ok)
  have c: "main env_ok Map.empty = (Inl (AttributeError ''a_''), ?f2)"
    using main_keeps_completed_stages
      [OF split_data_projr, of env_ok "fitted 5" 1 1 Map.empty _ _ _ _ _ _, OF _ _ _ c1 c2 c3]
    by (simp add: train_model_env_ok n env_ok_fields)
  txt \<open>Every stage returns.\<close>
  let ?d = "projr (split_data env_exposing_ab)"
  have d1: "export_to_onnx env_exposing_ab (fitted 5) ''claim_denial_model.onnx'' Map.empty
              = (Inr ''claim_denial_model.onnx'', ?f1)"
    and d2: "export_feature_metadata env_exposing_ab ''feature_metadata.json'' ?f1
              = (Inr ''feature_metadata.json'', ?f2)"
    and d3: "calibrate_and_export env_exposing_ab (fitted 5) (val_X ?d) (val_y ?d)
               ''calibration_params.json'' ?f2 = (Inr ''calibration_params.json'', ?f3)"
    by (simp_all add: export_to_onnx_eq export_feature_metadata_eq calibrate_and_export_eq
        other_fields env_ok_fields)
  have d: "main env_exposing_ab Map.empty = (Inr (), ?f3)"
    using main_keeps_completed_stages
      [OF split_data_projr, of env_exposing_ab "fitted 5" 1 1 Map.empty _ _ _ _ _ _,
        OF _ _ _ d1 d2 d3]
    by (simp add: train_model_others n other_fields env_ok_fields)
  from a1 a b2 b c d show ?thesis by simp
qed

text \<open>
  Claim C2 as stated fails: the run stops at the calibration with AttributeError, after
  the model artifact and the feature metadata were written under their final names, and
  both stay.
\<close>

theorem main_partial_artifacts_counterexample:
  "fst (main env_ok Map.empty) = Inl (AttributeError ''a_'')
   \<and> snd (main env_ok Map.empty) ''claim_denial_model.onnx'' =
       Some (OnnxFile \<lparr>graph_inputs = [(''float_input'', FloatTensorType [None, Some 5])],
                        graph = ()\<rparr>)
   \<and> snd (main env_ok Map.empty) ''feature_metadata.json'' = Some (JsonFile metadata)
   \<and> snd (main env_ok Map.empty) ''calibration_params.json'' = None"
  by (simp add: main_env_ok)

text \<open>
  Claim C3, as the code has it. \<open>calibrate_and_export\<close> makes no check of the labels:
  they reach the library fit as they are, and the call ends the same way for any two
  label vectors for which the fit returns the same, single-class or not. It puts no
  default pair in place of a fit: after the call the file system is unchanged, or the
  output path holds an incomplete file, or it holds the \<open>a_\<close> and \<open>b_\<close> of the
  first fitted calibrator.
\<close>

theorem calibrate_and_export_follows_fit:
  assumes "calibrate_and_export env model X y output_path fs = (r, fs')"
  shows "(calibrated_fit env model ''sigmoid'' ''prefit'' X y'
            = calibrated_fit env model ''sigmoid'' ''prefit'' X y \<longrightarrow>
          calibrate_and_export env model X y' output_path fs = (r, fs'))
       \<and> (fs' = fs \<or> fs' = fs(output_path \<mapsto> Partial)
          \<or> (\<exists>c cs a b. calibrated_fit env model ''sigmoid'' ''prefit'' X y = Inr (c # cs)
                \<and> cal_a c = Some a \<and> cal_b c = Some b
                \<and> fs' = fs(output_path \<mapsto> JsonFile (calibration_params a b))))"
proof (intro conjI impI)
  assume "calibrated_fit env model ''sigmoid'' ''prefit'' X y'
            = calibrated_fit env model ''sigmoid'' ''prefit'' X y"
  then have "calibrate_and_export env model X y' output_path fs
               = calibrate_and_export env model X y output_path fs"
    by (simp add: calibrate_and_export_eq)
  with assms show "calibrate_and_export env model X y' output_path fs = (r, fs')"
    by simp
next
  from assms show "fs' = fs \<or> fs' = fs(output_path \<mapsto> Partial)
          \<or> (\<exists>c cs a b. calibrated_fit env model ''sigmoid'' ''prefit'' X y = Inr (c # cs)
                \<and> cal_a c = Some a \<and> cal_b c = Some b
                \<and> fs' = fs(output_path \<mapsto> JsonFile (calibration_params a b)))"
    by (rule calibrate_and_export_file)
qed

theorem calibrate_and_export_follows_fit_witness:
  "calibrate_and_export env_ok (fitted 5)
     [[25000, 40, 1, 2, 3], [1500, 30, 0, 0, 0], [30000, 60, 3, 1, 4]] [0, 0, 0]
     ''calibration_params.json'' Map.empty = (Inl (AttributeError ''a_''), Map.empty)
   \<and> calibrated_fit env_ok (fitted 5) ''sigmoid'' ''prefit''
       [[25000, 40, 1, 2, 3], [1500, 30, 0, 0, 0], [30000, 60, 3, 1, 4]] [0, 1, 0]
     = calibrated_fit env_ok (fitted 5) ''sigmoid'' ''prefit''
         [[25000, 40, 1, 2, 3], [1500, 30, 0, 0, 0], [30000, 60, 3, 1, 4]] [0, 0, 0]
   \<and> calibrate_and_export env_ok (fitted 5)
       [[25000, 40, 1, 2, 3], [1500, 30, 0, 0, 0], [30000, 60, 3, 1, 4]] [0, 1, 0]
       ''calibration_params.json'' Map.empty = (Inl (AttributeError ''a_''), Map.empty)"
proof -
  have r: "calibrate_and_export env_ok (fitted 5)
     [[25000, 40, 1, 2, 3], [1500, 30, 0, 0, 0], [30000, 60, 3, 1, 4]] [0, 0, 0]
     ''calibration_params.json'' Map.empty = (Inl (AttributeError ''a_''), Map.empty)"
    by (rule calibrate_and_export_env_ok)
  have f: "calibrated_fit env_ok (fitted 5) ''sigmoid'' ''prefit''
       [[25000, 40, 1, 2, 3], [1500, 30, 0, 0, 0], [30000, 60, 3, 1, 4]] [0, 1, 0]
     = calibrated_fit env_ok (fitted 5) ''sigmoid'' ''prefit''
         [[25000, 40, 1, 2, 3], [1500, 30, 0, 0, 0], [30000, 60, 3, 1, 4]] [0, 0, 0]"
    by (simp add: env_ok_fields)
  from calibrate_and_export_follows_fit[OF r, of "[0, 1, 0]"] r f show ?thesis
    by blast
qed

text \<open>
  Claim C3 as stated fails: with the all-0 label vector \<open>[0, 0, 0]\<close> the call ends with
  AttributeError, raised where \<open>a_\<close> is read after the fit has returned, and it ends
  with the same error for labels of both classes. No single-class rejection takes place.
\<close>

theorem calibrate_single_class_counterexample:
  "set [0, 0, 0 :: int] = {0}
   \<and> calibrate_and_export env_ok (fitted 5)
       [[25000, 40, 1, 2, 3], [1500, 30, 0, 0, 0], [30000, 60, 3, 1, 4]] [0, 0, 0]
       ''calibration_params.json'' Map.empty = (Inl (AttributeError ''a_''), Map.empty)
   \<and> calibrate_and_export env_ok (fitted 5)
       [[25000, 40, 1, 2, 3], [1500, 30, 0, 0, 0], [30000, 60, 3, 1, 4]] [0, 1, 0]
       ''calibration_params.json'' Map.empty = (Inl (AttributeError ''a_''), Map.empty)"
  by (simp add: calibrate_and_export_env_ok)

text \<open>
  Claim C4. In the metadata document \<open>export_feature_metadata\<close> writes, the five
  \<open>index\<close> values are a permutation of 0, ..., 4: each occurs exactly once.
\<close>

theorem metadata_index_permutation:
  assumes "export_feature_metadata env output_path fs = (Inr p, fs')"
    and "fs' output_path = Some (JsonFile doc)"
  shows "length (features_of doc) = 5
       \<and> mset (map feature_index (features_of doc)) =
           mset (map (\<lambda>i. Some (int i)) [0..<length (features_of doc)])
       \<and> distinct (map feature_index (features_of doc))"
proof -
  from export_feature_metadata_Inr[OF assms(1)] assms(2) have doc: "doc = metadata"
    by simp
  have "[0..<5] = [0, 1, 2, 3, 4]" by (simp add: upt_rec)
  then show ?thesis
    by (simp add: doc metadata_length metadata_features)
qed

theorem metadata_index_permutation_witness:
  "export_feature_metadata env_ok ''feature_metadata.json'' Map.empty =
     (Inr ''feature_metadata.json'', [''feature_metadata.json'' \<mapsto> JsonFile metadata])
   \<and> length (features_of metadata) = 5
   \<and> mset (map feature_index (features_of metadata)) =
       mset (map (\<lambda>i. Some (int i)) [0..<length (features_of metadata)])
   \<and> distinct (map feature_index (features_of metadata))"
proof -
  have r: "export_feature_metadata env_ok ''feature_metadata.json'' Map.empty =
     (Inr ''feature_metadata.json'', [''feature_metadata.json'' \<mapsto> JsonFile metadata])"
    by (rule export_feature_metadata_env_ok)
  have f: "[''feature_metadata.json'' \<mapsto> JsonFile metadata] ''feature_metadata.json''
             = Some (JsonFile (metadata :: pyval))"
    by simp
  from metadata_index_permutation[OF r f] r show ?thesis
    by blast
qed

text \<open>
  Claim C5. In the metadata document \<open>export_feature_metadata\<close> writes, every
  CATEGORICAL feature has a mapping with an UNKNOWN entry, and the code of that entry
  differs, as a number, from the code of every other label of the same mapping.
\<close>

theorem metadata_unknown_fallback:
  assumes "export_feature_metadata env output_path fs = (Inr p, fs')"
    and "fs' output_path = Some (JsonFile doc)"
    and "f \<in> set (features_of doc)"
    and "feature_type f = Some ''CATEGORICAL''"
  shows "\<exists>m u. feature_mapping f = Some m \<and> map_of m ''UNKNOWN'' = Some u
           \<and> number u \<noteq> None
           \<and> (\<forall>(k, v) \<in> set m. k \<noteq> ''UNKNOWN'' \<longrightarrow> number v \<noteq> number u)"
proof -
  from export_feature_metadata_Inr[OF assms(1)] assms(2) have doc: "doc = metadata"
    by simp
  from assms(3) assms(4) show ?thesis
    unfolding doc
    by (auto simp add: metadata_def features_of_def feature_type_def feature_mapping_def)
qed

theorem metadata_unknown_fallback_witness:
  "export_feature_metadata env_ok ''feature_metadata.json'' Map.empty =
     (Inr ''feature_metadata.json'', [''feature_metadata.json'' \<mapsto> JsonFile metadata])
   \<and> features_of metadata ! 2 \<in> set (features_of metadata)
   \<and> feature_type (features_of metadata ! 2) = Some ''CATEGORICAL''
   \<and> (\<exists>m u. feature_mapping (features_of metadata ! 2) = Some m
          \<and> map_of m ''UNKNOWN'' = Some u \<and> number u \<noteq> None
          \<and> (\<forall>(k, v) \<in> set m. k \<noteq> ''UNKNOWN'' \<longrightarrow> number v \<noteq> number u))"
proof -
  have r: "export_feature_metadata env_ok ''feature_metadata.json'' Map.empty =
     (Inr ''feature_metadata.json'', [''feature_metadata.json'' \<mapsto> JsonFile metadata])"
    by (rule export_feature_metadata_env_ok)
  have i: "features_of metadata ! 2 \<in> set (features_of metadata)"
    by (rule nth_mem) (simp add: metadata_length)
  have t: "feature_type (features_of metadata ! 2) = Some ''CATEGORICAL''"
    using metadata_types nth_map[of 2 "features_of metadata" feature_type]
    by (simp add: metadata_length)
  have f: "[''feature_metadata.json'' \<mapsto> JsonFile metadata] ''feature_metadata.json''
             = Some (JsonFile (metadata :: pyval))"
    by simp
  from metadata_unknown_fallback[OF r f i t] r i t show ?thesis
    by blast
qed

text \<open>
  Claim C6 at its failing input. The script means to write \<open>type\<close> and the parameters
  \<open>a\<close> and \<open>b\<close>, but it reads \<open>a_\<close> from the calibrated classifier, which does
  not have it: the call made by \<open>main\<close> ends with AttributeError before the file is
  opened, and the run leaves no calibration file.
\<close>

theorem calibration_file_not_written:
  "calibrate_and_export env_ok (fitted 5)
     (val_X (projr (split_data env_ok))) (val_y (projr (split_data env_ok)))
     ''calibration_params.json''
     [''claim_denial_model.onnx'' \<mapsto> OnnxFile
        \<lparr>graph_inputs = [(''float_input'', FloatTensorType [None, Some 5])], graph = ()\<rparr>,
      ''feature_metadata.json'' \<mapsto> JsonFile metadata]
     = (Inl (AttributeError ''a_''),
        [''claim_denial_model.onnx'' \<mapsto> OnnxFile
           \<lparr>graph_inputs = [(''float_input'', FloatTensorType [None, Some 5])], graph = ()\<rparr>,
         ''feature_metadata.json'' \<mapsto> JsonFile metadata])
   \<and> fst (main env_ok Map.empty) = Inl (AttributeError ''a_'')
   \<and> snd (main env_ok Map.empty) ''calibration_params.json'' = None"
  by (simp add: calibrate_and_export_env_ok main_env_ok)

text \<open>
  Claim C7. For fixed \<open>a > 0\<close> and \<open>b\<close> the calibrated probability is strictly
  decreasing in the raw score: \<open>s1 < s2\<close> gives \<open>corrected(s2) < corrected(s1)\<close>. The
  order of two calibrated values is fixed by the order of their raw scores, the same way
  for every pair.
\<close>

theorem corrected_monotone:
  assumes "0 < a" and "s1 < s2"
  shows "corrected a b s2 < corrected a b s1"
proof -
  have "a * s1 + b < a * s2 + b" using assms by simp
  then have "exp (a * s1 + b) < exp (a * s2 + b)" by simp
  then have "1 + exp (a * s1 + b) < 1 + exp (a * s2 + b)" by simp
  moreover have "0 < 1 + exp (a * s1 + b)" by (simp add: add_pos_pos)
  ultimately show ?thesis
    unfolding corrected_def by (simp add: frac_less2)
qed

theorem corrected_monotone_witness:
  "(0 :: real) < 1 \<and> (0 :: real) < 1 \<and> corrected 1 0 1 < corrected 1 0 0"
  using corrected_monotone[of 1 0 1 0] by simp

text \<open>
  Claim C8. In the metadata document \<open>export_feature_metadata\<close> writes, the features
  are listed in index order: the feature at position \<open>i\<close> of the list, for \<open>i\<close> from 0 to
  4, has \<open>index\<close> equal to \<open>i\<close>.
\<close>

theorem metadata_features_in_index_order:
  assumes "export_feature_metadata env output_path fs = (Inr p, fs')"
    and "fs' output_path = Some (JsonFile doc)"
    and "i < 5"
  shows "i < length (features_of doc) \<and> feature_index (features_of doc ! i) = Some (int i)"
proof -
  from export_feature_metadata_Inr[OF assms(1)] assms(2) have doc: "doc = metadata"
    by simp
  from assms(3) have "i = 0 \<or> i = 1 \<or> i = 2 \<or> i = 3 \<or> i = 4" by arith
  moreover have "map feature_index (features_of metadata) ! i = feature_index (features_of metadata ! i)"
    using assms(3) by (simp add: metadata_length)
  ultimately show ?thesis
    unfolding doc using metadata_features by (auto simp add: metadata_length)
qed

theorem metadata_features_in_index_order_witness:
  "export_feature_metadata env_ok ''feature_metadata.json'' Map.empty =
     (Inr ''feature_metadata.json'', [''feature_metadata.json'' \<mapsto> JsonFile metadata])
   \<and> (3 :: nat) < 5
   \<and> feature_index (features_of metadata ! 3) = Some 3
   \<and> dict_get (features_of metadata ! 3) ''name'' = Some (PStr ''provider_state'')"
proof -
  have r: "export_feature_metadata env_ok ''feature_metadata.json'' Map.empty =
     (Inr ''feature_metadata.json'', [''feature_metadata.json'' \<mapsto> JsonFile metadata])"
    by (rule export_feature_metadata_env_ok)
  have n: "dict_get (features_of metadata ! 3) ''name'' = Some (PStr ''provider_state'')"
    by (simp add: metadata_def features_of_def)
  have f: "[''feature_metadata.json'' \<mapsto> JsonFile metadata] ''feature_metadata.json''
             = Some (JsonFile (metadata :: pyval))"
    by simp
  from metadata_features_in_index_order[OF r f, of 3] r n show ?thesis
    by simp
qed

text \<open>
  Claim C9. In every sample \<open>create_sample_data\<close> generates, the values of columns 2
  and 3 are among 0, 1, 2, 3, and the UNKNOWN code of the feature with that index in the
  metadata is 4: no sample carries the UNKNOWN code in a categorical column.
\<close>

theorem unknown_code_not_sampled:
  assumes "i < n_samples"
  shows "fst (create_sample_data env) ! i ! 2 \<in> {0, 1, 2, 3}
       \<and> fst (create_sample_data env) ! i ! 3 \<in> {0, 1, 2, 3}
       \<and> column_unknown_code metadata 2 = Some 4
       \<and> column_unknown_code metadata 3 = Some 4
       \<and> column_unknown_code metadata 2 \<noteq> Some (fst (create_sample_data env) ! i ! 2)
       \<and> column_unknown_code metadata 3 \<noteq> Some (fst (create_sample_data env) ! i ! 3)"
proof -
  have u: "column_unknown_code metadata 2 = Some 4" "column_unknown_code metadata 3 = Some 4"
    by (simp_all add: column_unknown_code_def feature_at_def metadata_def features_of_def
        feature_index_def unknown_code_def feature_mapping_def)
  from row_categories[OF assms, of env] u show ?thesis by auto
qed

theorem unknown_code_not_sampled_witness:
  "(0 :: nat) < n_samples
   \<and> fst (create_sample_data env_ok) ! 0 ! 2 = 2
   \<and> fst (create_sample_data env_ok) ! 0 ! 3 = 2
   \<and> column_unknown_code metadata 2 \<noteq> Some (fst (create_sample_data env_ok) ! 0 ! 2)
   \<and> column_unknown_code metadata 3 \<noteq> Some (fst (create_sample_data env_ok) ! 0 ! 3)"
proof -
  have n: "0 < n_samples" by (simp add: n_samples_def)
  from unknown_code_not_sampled[OF n, of env_ok] n first_row_env_ok show ?thesis by blast
qed

text \<open>
  Claim C10. Every label in the vector \<open>y\<close> returned by \<open>create_sample_data\<close> is 0 or
  1, and so is every label of the validation part that \<open>main\<close> hands to the calibration.
\<close>

theorem labels_are_binary:
  "(l \<in> set (snd (create_sample_data env)) \<longrightarrow> l = 0 \<or> l = 1)
   \<and> (split_data env = Inr d \<and> l \<in> set (val_y d) \<longrightarrow> l = 0 \<or> l = 1)"
proof (intro conjI impI)
  assume "l \<in> set (snd (create_sample_data env))"
  then show "l = 0 \<or> l = 1" by (rule labels_binary)
next
  assume a: "split_data env = Inr d \<and> l \<in> set (val_y d)"
  with split_data_ok[of env] have "l \<in> set (snd (create_sample_data env))" by auto
  then show "l = 0 \<or> l = 1" by (rule labels_binary)
qed

theorem labels_are_binary_witness:
  "snd (create_sample_data env_ok) ! 0 \<in> set (snd (create_sample_data env_ok))
   \<and> snd (create_sample_data env_ok) ! 0 = 0
   \<and> (snd (create_sample_data env_ok) ! 0 = 0 \<or> snd (create_sample_data env_ok) ! 0 = 1)
   \<and> split_data env_ok = Inr (projr (split_data env_ok))
   \<and> val_y (projr (split_data env_ok)) ! 0 \<in> set (val_y (projr (split_data env_ok)))
   \<and> (val_y (projr (split_data env_ok)) ! 0 = 0 \<or> val_y (projr (split_data env_ok)) ! 0 = 1)"
proof -
  let ?d = "projr (split_data env_ok)"
  have d: "split_data env_ok = Inr ?d" by (rule split_data_projr)
  have m: "snd (create_sample_data env_ok) ! 0 \<in> set (snd (create_sample_data env_ok))"
    by (rule nth_mem) (simp add: length_y n_samples_def)
  have "length (val_y ?d) = 150" using split_data_ok[of env_ok] d by auto
  then have v: "val_y ?d ! 0 \<in> set (val_y ?d)" by (intro nth_mem) simp
  from labels_are_binary[of "snd (create_sample_data env_ok) ! 0" env_ok ?d]
    labels_are_binary[of "val_y ?d ! 0" env_ok ?d] d m v first_label_env_ok
  show ?thesis by blast
qed

end
